theory Spec2Isabelle
  imports Complex_Main "HOL-Library.Char_ord" "HOL-Library.List_Lexorder"
begin

section \<open>Python values used by the scripts\<close>

text \<open>
  Text is modelled as \<^typ>\<open>string\<close> (ASCII). A text file is the list of its lines, as
  iteration over the file object and \<^verbatim>\<open>readline\<close> deliver them (each line
  with its terminator, none of them empty). The exceptions the scripts can raise are
  values of \<open>error\<close>; an assertion carries its message.
\<close>

datatype error =
    ValueError
  | IndexError
  | TypeError
  | FileNotFoundError
  | AssertionError string

text \<open>\<^verbatim>\<open>str.isspace\<close> on ASCII: TAB, LF, VT, FF, CR, FS, GS, RS, US and space.\<close>

definition isspace :: "char \<Rightarrow> bool" where
  "isspace c = (c \<in> set [CHR 0x09, CHR 0x0A, CHR 0x0B, CHR 0x0C, CHR 0x0D,
                          CHR 0x1C, CHR 0x1D, CHR 0x1E, CHR 0x1F, CHR 0x20])"

text \<open>\<^verbatim>\<open>s.split()\<close>: the maximal runs of non-whitespace characters.\<close>

fun splitWs :: "string \<Rightarrow> string \<Rightarrow> string list" where
  "splitWs acc [] = (if acc = [] then [] else [acc])"
| "splitWs acc (c # cs) =
     (if isspace c then (if acc = [] then splitWs [] cs else acc # splitWs [] cs)
      else splitWs (acc @ [c]) cs)"

definition py_split :: "string \<Rightarrow> string list" where
  "py_split s = splitWs [] s"

text \<open>\<^verbatim>\<open>s.split(sep)\<close> for a one-character separator: never an empty list.\<close>

fun splitOn :: "char \<Rightarrow> string \<Rightarrow> string \<Rightarrow> string list" where
  "splitOn sep acc [] = [acc]"
| "splitOn sep acc (c # cs) =
     (if c = sep then acc # splitOn sep [] cs else splitOn sep (acc @ [c]) cs)"

definition py_split_sep :: "char \<Rightarrow> string \<Rightarrow> string list" where
  "py_split_sep sep s = splitOn sep [] s"

definition py_strip :: "string \<Rightarrow> string" where
  "py_strip s = rev (dropWhile isspace (rev (dropWhile isspace s)))"

definition py_endswith :: "string \<Rightarrow> string \<Rightarrow> bool" where
  "py_endswith s suf = (length suf \<le> length s \<and> drop (length s - length suf) s = suf)"

text \<open>\<^verbatim>\<open>sep.join(xs)\<close>.\<close>

fun py_join :: "string \<Rightarrow> string list \<Rightarrow> string" where
  "py_join sep [] = []"
| "py_join sep [x] = x"
| "py_join sep (x # y # ys) = x @ sep @ py_join sep (y # ys)"

text \<open>\<^verbatim>\<open>xs[i]\<close> for a constant index \<open>i \<ge> 0\<close>: IndexError out of range.\<close>

definition py_index :: "'a list \<Rightarrow> nat \<Rightarrow> error + 'a" where
  "py_index xs i = (if i < length xs then Inr (xs ! i) else Inl IndexError)"

text \<open>
  \<^verbatim>\<open>int(s)\<close> on ASCII text, base 10: surrounding whitespace is dropped, one sign
  is allowed, and single underscores may separate digits. \<open>None\<close> stands for ValueError.
  (CPython from 3.11 on also rejects more than 4300 digits; that limit is not modelled.)
\<close>

definition isdigit :: "char \<Rightarrow> bool" where
  "isdigit c = (c \<in> set ''0123456789'')"

definition digit_val :: "char \<Rightarrow> int" where
  "digit_val c = int (of_char c) - 48"

fun digits_val :: "int \<Rightarrow> string \<Rightarrow> int" where
  "digits_val acc [] = acc"
| "digits_val acc (c # cs) = digits_val (10 * acc + digit_val c) cs"

fun valid_digits :: "string \<Rightarrow> bool" where
  "valid_digits [] = False"
| "valid_digits [c] = isdigit c"
| "valid_digits (c # d # cs) =
     (isdigit c \<and> (if d = CHR ''_'' then valid_digits cs else valid_digits (d # cs)))"

definition py_int :: "string \<Rightarrow> int option" where
  "py_int s =
     (let t = py_strip s;
          neg = (t \<noteq> [] \<and> hd t = CHR ''-'');
          body = (if t \<noteq> [] \<and> (hd t = CHR ''-'' \<or> hd t = CHR ''+'') then tl t else t)
      in if valid_digits body
         then Some ((if neg then - 1 else 1) * digits_val 0 (filter (\<lambda>c. c \<noteq> CHR ''_'') body))
         else None)"

text \<open>\<^verbatim>\<open>str(n)\<close> for an integer: decimal digits, a minus sign when negative.\<close>

definition digit_char :: "nat \<Rightarrow> char" where
  "digit_char d = char_of (48 + d)"

fun str_nat :: "nat \<Rightarrow> string" where
  "str_nat n = (if n < 10 then [digit_char n] else str_nat (n div 10) @ [digit_char (n mod 10)])"

declare str_nat.simps [simp del]

definition py_str :: "int \<Rightarrow> string" where
  "py_str i = (if i < 0 then CHR ''-'' # str_nat (nat (- i)) else str_nat (nat i))"

text \<open>Sequencing two fallible steps: the first exception raised ends the computation.\<close>

definition bind_err :: "error + 'a \<Rightarrow> ('a \<Rightarrow> error + 'b) \<Rightarrow> error + 'b" where
  "bind_err m f = (case m of Inl e \<Rightarrow> Inl e | Inr x \<Rightarrow> f x)"

definition tab :: string where
  "tab = [CHR 0x09]"

definition nl :: string where
  "nl = [CHR 0x0A]"

text \<open>
  \<^verbatim>\<open>os.path\<close> on POSIX: \<^verbatim>\<open>basename\<close>, \<^verbatim>\<open>dirname\<close> and
  \<^verbatim>\<open>join\<close> of two components.
\<close>

definition basename :: "string \<Rightarrow> string" where
  "basename p = rev (takeWhile (\<lambda>c. c \<noteq> CHR ''/'') (rev p))"

definition dirname :: "string \<Rightarrow> string" where
  "dirname p =
     (let head = rev (dropWhile (\<lambda>c. c \<noteq> CHR ''/'') (rev p))
      in if head \<noteq> [] \<and> \<not> list_all (\<lambda>c. c = CHR ''/'') head
         then rev (dropWhile (\<lambda>c. c = CHR ''/'') (rev head))
         else head)"

definition path_join :: "string \<Rightarrow> string \<Rightarrow> string" where
  "path_join a b =
     (if b \<noteq> [] \<and> hd b = CHR ''/'' then b
      else if a = [] \<or> last a = CHR ''/'' then a @ b
      else a @ ''/'' @ b)"

text \<open>
  The file system is a map from paths to the lines of each file, together with the
  trace of what a run has done to it. A function that touches files takes the world and
  returns the new one with the exception it raised, if any.
\<close>

datatype event =
    OpenRead string
  | OpenWrite string
  | SortFile string
  | MakeDirs string
  | RunCounter string string string

record world =
  files :: "string \<Rightarrow> string list option"
  trace :: "event list"

text \<open>
  A loop that reads lines and writes the records made from each: it stops at the first
  exception, and what was written before stays written.
\<close>

fun writeEach :: "(string \<Rightarrow> error + string list) \<Rightarrow> string list \<Rightarrow> string list \<times> error option" where
  "writeEach f [] = ([], None)"
| "writeEach f (l # ls) =
     (case f l of
        Inl e \<Rightarrow> ([], Some e)
      | Inr out \<Rightarrow> (case writeEach f ls of (written, r) \<Rightarrow> (out @ written, r)))"

section \<open>ParseKucabCompendium.py\<close>

text \<open>
  The two designation tuples of \<^verbatim>\<open>parseKucabCompendium\<close>. In the source no comma
  separates \<^verbatim>\<open>"MSM0.103"\<close> from \<^verbatim>\<open>"MSM0.14"\<close> at the line break of
  \<^verbatim>\<open>PAHDesignations\<close>, so Python joins the two adjacent literals into one element.
\<close>

definition PAHDesignations :: "string list" where
  "PAHDesignations =
     [''MSM0.54'', ''MSM0.26'', ''MSM0.92'', ''MSM0.2'', ''MSM0.42'', ''MSM0.74'',
      ''MSM0.103'' @ ''MSM0.14'',
      ''MSM0.82'', ''MSM0.130'', ''MSM0.12'', ''MSM0.132'', ''MSM0.13'', ''MSM0.96'']"

definition LungCancerSpecificDesignations :: "string list" where
  "LungCancerSpecificDesignations =
     [''MSM0.26'', ''MSM0.92'', ''MSM0.2'', ''MSM0.103'', ''MSM0.14'']"

definition relevantDesignations :: "bool \<Rightarrow> string list" where
  "relevantDesignations includeAllPAHs =
     (if includeAllPAHs then PAHDesignations else LungCancerSpecificDesignations)"

text \<open>
  One data line of the substitutions file (source lines 55 to 80). The result is \<open>None\<close>
  when the line is skipped, and otherwise the tuple of fields that is joined with tabs
  and written. \<^verbatim>\<open>isPurine\<close> and \<^verbatim>\<open>reverseCompliment\<close> come from a module
  of helpers that is not among the sources: they are parameters, and may raise.
\<close>

definition kucabRecord ::
  "(string \<Rightarrow> error + bool) \<Rightarrow> (string \<Rightarrow> error + string) \<Rightarrow> bool \<Rightarrow> string
     \<Rightarrow> error + string list option" where
  "kucabRecord isPurine reverseCompliment includeAllPAHs line =
     (let choppedUpLine = py_split_sep (CHR 0x09) (py_strip line) in
      bind_err (py_index choppedUpLine 15) (\<lambda>designation.
      if designation \<notin> set (relevantDesignations includeAllPAHs) then Inr None
      else
        bind_err (py_index choppedUpLine 4) (\<lambda>f4.
        bind_err (py_index choppedUpLine 5) (\<lambda>startPos1Base.
        case py_int startPos1Base of
          None \<Rightarrow> Inl ValueError
        | Some n \<Rightarrow>
            bind_err (py_index choppedUpLine 6) (\<lambda>mutatedFrom.
            bind_err (py_index choppedUpLine 7) (\<lambda>mutatedTo.
            bind_err (py_index choppedUpLine 13) (\<lambda>pre.
            bind_err (py_index choppedUpLine 14) (\<lambda>post.
            let chromosome = ''chr'' @ f4;
                startPos0Base = py_str (n - 1);
                trinucContext = pre @ mutatedFrom @ post
            in bind_err (isPurine mutatedFrom) (\<lambda>purine.
               if purine then
                 bind_err (reverseCompliment mutatedFrom) (\<lambda>rcFrom.
                 bind_err (reverseCompliment mutatedTo) (\<lambda>rcTo.
                 bind_err (reverseCompliment trinucContext) (\<lambda>rcContext.
                 Inr (Some [chromosome, startPos0Base, startPos1Base,
                            rcContext, rcFrom @ ''>'' @ rcTo, ''-'']))))
               else
                 Inr (Some [chromosome, startPos0Base, startPos1Base,
                            trinucContext, mutatedFrom @ ''>'' @ mutatedTo, ''+'']))))))))))"

definition kucabLine ::
  "(string \<Rightarrow> error + bool) \<Rightarrow> (string \<Rightarrow> error + string) \<Rightarrow> bool \<Rightarrow> string
     \<Rightarrow> error + string list" where
  "kucabLine isPurine reverseCompliment includeAllPAHs line =
     bind_err (kucabRecord isPurine reverseCompliment includeAllPAHs line) (\<lambda>r.
       case r of None \<Rightarrow> Inr [] | Some cols \<Rightarrow> Inr [py_join tab cols @ nl])"

text \<open>
  The helpers of one run: \<^verbatim>\<open>getIsolatedParentDir\<close> (not among the sources) and the
  result of the external \<^verbatim>\<open>sort -k1,1 -k2,2n\<close> on a file's lines are parameters too.
\<close>

definition kucabOutputPath :: "(string \<Rightarrow> string) \<Rightarrow> bool \<Rightarrow> string \<Rightarrow> string" where
  "kucabOutputPath getIsolatedParentDir includeAllPAHs kucabSubstitutionsFilePath =
     (let localRootDirectory = dirname kucabSubstitutionsFilePath;
          dataGroupName = getIsolatedParentDir kucabSubstitutionsFilePath
                          @ (if includeAllPAHs then ''_all_PAHs'' else ''_smoker_lung'')
      in path_join localRootDirectory (dataGroupName @ ''_trinuc_context.bed''))"

text \<open>
  One pass of the loop over the given paths (source lines 12 to 85). The output file is
  opened for writing, and so emptied, before the first line is read.
\<close>

definition kucabFile ::
  "(string \<Rightarrow> error + bool) \<Rightarrow> (string \<Rightarrow> error + string) \<Rightarrow> (string \<Rightarrow> string)
     \<Rightarrow> (string list \<Rightarrow> string list) \<Rightarrow> bool \<Rightarrow> world \<Rightarrow> string \<Rightarrow> world \<times> error option" where
  "kucabFile isPurine reverseCompliment getIsolatedParentDir sortLines includeAllPAHs w path =
     (if \<not> py_endswith path ''final.txt'' then (w, Some ValueError)
      else
        let outputTrinucBedFilePath = kucabOutputPath getIsolatedParentDir includeAllPAHs path in
        if files w path = None then (w, Some FileNotFoundError)
        else
          let w1 = w\<lparr>trace := trace w @ [OpenRead path]\<rparr>;
              w2 = w1\<lparr>files := (files w1)(outputTrinucBedFilePath \<mapsto> []),
                      trace := trace w1 @ [OpenWrite outputTrinucBedFilePath]\<rparr>;
              lines = the (files w2 path)
          in case writeEach (kucabLine isPurine reverseCompliment includeAllPAHs) (drop 1 lines) of
               (written, Some e) \<Rightarrow>
                 (w2\<lparr>files := (files w2)(outputTrinucBedFilePath \<mapsto> written)\<rparr>, Some e)
             | (written, None) \<Rightarrow>
                 (w2\<lparr>files := (files w2)(outputTrinucBedFilePath \<mapsto> sortLines written),
                     trace := trace w2 @ [SortFile outputTrinucBedFilePath]\<rparr>, None))"

fun parseKucabCompendium ::
  "(string \<Rightarrow> error + bool) \<Rightarrow> (string \<Rightarrow> error + string) \<Rightarrow> (string \<Rightarrow> string)
     \<Rightarrow> (string list \<Rightarrow> string list) \<Rightarrow> world \<Rightarrow> string list \<Rightarrow> bool \<Rightarrow> world \<times> error option" where
  "parseKucabCompendium isPurine reverseCompliment getIsolatedParentDir sortLines w [] includeAllPAHs =
     (w, None)"
| "parseKucabCompendium isPurine reverseCompliment getIsolatedParentDir sortLines w (p # ps) includeAllPAHs =
     (case kucabFile isPurine reverseCompliment getIsolatedParentDir sortLines includeAllPAHs w p of
        (w', Some e) \<Rightarrow> (w', Some e)
      | (w', None) \<Rightarrow>
          parseKucabCompendium isPurine reverseCompliment getIsolatedParentDir sortLines w' ps includeAllPAHs)"

section \<open>ParseUVDE-Seq.py\<close>

text \<open>
  One line of the lesion file (source lines 33 to 43): the two single-base records written
  for a two-base lesion. Both are written only after every field has been read.
\<close>

definition uvdeLine :: "string \<Rightarrow> error + string list" where
  "uvdeLine line =
     (let choppedUpLine = py_split_sep (CHR 0x09) (py_strip line) in
      bind_err (py_index choppedUpLine 0) (\<lambda>chromosome.
      bind_err (py_index choppedUpLine 1) (\<lambda>f1.
      case py_int f1 of
        None \<Rightarrow> Inl ValueError
      | Some startPos \<Rightarrow>
          bind_err (py_index choppedUpLine 2) (\<lambda>f2.
          case py_int f2 of
            None \<Rightarrow> Inl ValueError
          | Some e \<Rightarrow>
              let endPos = e - 1 in
              bind_err (py_index choppedUpLine 5) (\<lambda>plusOrMinus.
              Inr (map (\<lambda>i.
                     let ID = chromosome @ '':'' @ py_str (startPos + i) @ ''-''
                              @ py_str (endPos + i) @ ''('' @ plusOrMinus @ '')''
                     in py_join tab [chromosome, py_str (startPos + i), py_str (endPos + i),
                                     ID, ''NA'', plusOrMinus] @ nl)
                   [0, 1]))))))"

definition uvdeOutputPath :: "(string \<Rightarrow> string) \<Rightarrow> string \<Rightarrow> string" where
  "uvdeOutputPath getIsolatedParentDir UVDESeqFilePath =
     (let localRootDirectory = dirname UVDESeqFilePath;
          dataGroupName = getIsolatedParentDir UVDESeqFilePath
      in path_join localRootDirectory (dataGroupName @ ''_singlenuc_context.bed''))"

text \<open>One pass of the loop over the given paths (source lines 14 to 48).\<close>

definition uvdeFile ::
  "(string \<Rightarrow> string) \<Rightarrow> (string list \<Rightarrow> string list) \<Rightarrow> world \<Rightarrow> string \<Rightarrow> world \<times> error option" where
  "uvdeFile getIsolatedParentDir sortLines w path =
     (if \<not> py_endswith (basename path) ''.bed'' then (w, Some ValueError)
      else
        let singlenucOutputFilePath = uvdeOutputPath getIsolatedParentDir path in
        if files w path = None then (w, Some FileNotFoundError)
        else
          let w1 = w\<lparr>trace := trace w @ [OpenRead path]\<rparr>;
              w2 = w1\<lparr>files := (files w1)(singlenucOutputFilePath \<mapsto> []),
                      trace := trace w1 @ [OpenWrite singlenucOutputFilePath]\<rparr>;
              lines = the (files w2 path)
          in case writeEach uvdeLine lines of
               (written, Some e) \<Rightarrow>
                 (w2\<lparr>files := (files w2)(singlenucOutputFilePath \<mapsto> written)\<rparr>, Some e)
             | (written, None) \<Rightarrow>
                 (w2\<lparr>files := (files w2)(singlenucOutputFilePath \<mapsto> sortLines written),
                     trace := trace w2 @ [SortFile singlenucOutputFilePath]\<rparr>, None))"

fun parseUVDESeq ::
  "(string \<Rightarrow> string) \<Rightarrow> (string list \<Rightarrow> string list) \<Rightarrow> world \<Rightarrow> string list \<Rightarrow> world \<times> error option" where
  "parseUVDESeq getIsolatedParentDir sortLines w [] = (w, None)"
| "parseUVDESeq getIsolatedParentDir sortLines w (p # ps) =
     (case uvdeFile getIsolatedParentDir sortLines w p of
        (w', Some e) \<Rightarrow> (w', Some e)
      | (w', None) \<Rightarrow> parseUVDESeq getIsolatedParentDir sortLines w' ps)"

section \<open>StratifyNucleosomeMap.py\<close>

text \<open>
  A Python float is its value or one of the three special values; \<^verbatim>\<open>==\<close> never
  holds of a NaN. The reader \<^verbatim>\<open>float(s)\<close> itself is a parameter \<open>pyfloat\<close> of the
  functions below, with \<open>None\<close> for ValueError.
\<close>

datatype pyfloat = Finite rat | PosInf | NegInf | NaN

definition float_eq :: "pyfloat \<Rightarrow> pyfloat \<Rightarrow> bool" where
  "float_eq a b = (a \<noteq> NaN \<and> b \<noteq> NaN \<and> a = b)"

text \<open>
  \<^verbatim>\<open>matchesBedEntry\<close>: the unpacking of the first two fields raises when there are
  fewer, and \<^verbatim>\<open>and\<close> reads the position only when the chromosomes agree. The strand
  column is not looked at.
\<close>

definition matchesBedEntry ::
  "(string \<Rightarrow> pyfloat option) \<Rightarrow> string \<Rightarrow> pyfloat \<Rightarrow> string \<Rightarrow> error + bool" where
  "matchesBedEntry pyfloat chromosome startPos bedEntry =
     (case take 2 (py_split bedEntry) of
        [bedChromosome, bedStartPos] \<Rightarrow>
          if chromosome = bedChromosome
          then (case pyfloat bedStartPos of
                  None \<Rightarrow> Inl ValueError
                | Some v \<Rightarrow> Inr (float_eq startPos v))
          else Inr False
      | _ \<Rightarrow> Inl ValueError)"

text \<open>
  Source lines 64 to 70: the rows of the counts file after its header whose second field
  is not the text \<^verbatim>\<open>0\<close>, each stripped.
\<close>

fun readNucPosIDs :: "string list \<Rightarrow> error + string list" where
  "readNucPosIDs [] = Inr []"
| "readNucPosIDs (line # ls) =
     bind_err (py_index (py_split line) 1) (\<lambda>c.
     bind_err (readNucPosIDs ls) (\<lambda>ids.
     Inr (if c \<noteq> ''0'' then py_strip line # ids else ids)))"

text \<open>Source lines 80 and 81: the chromosome and position named by a position ID.\<close>

definition parseNucPosID ::
  "(string \<Rightarrow> pyfloat option) \<Rightarrow> string \<Rightarrow> error + string \<times> pyfloat" where
  "parseNucPosID pyfloat nucPosID =
     (case py_split_sep (CHR '':'') nucPosID of
        [chromosome, theRest] \<Rightarrow>
          (case py_split_sep (CHR ''('') theRest of
             [] \<Rightarrow> Inl IndexError
           | p # _ \<Rightarrow>
               (case pyfloat p of
                  None \<Rightarrow> Inl ValueError
                | Some startPos \<Rightarrow> Inr (chromosome, startPos)))
      | _ \<Rightarrow> Inl ValueError)"

text \<open>
  The \<^verbatim>\<open>while\<close> loop of source lines 83 to 85, on the entry just read and the lines
  still unread: \<^verbatim>\<open>readline\<close> gives the empty string at the end of the file, and the
  assertion is made on what it gave.
\<close>

fun seekMatch ::
  "(string \<Rightarrow> pyfloat option) \<Rightarrow> string \<Rightarrow> string \<Rightarrow> pyfloat \<Rightarrow> string \<Rightarrow> string list
     \<Rightarrow> error + string \<times> string list" where
  "seekMatch pyfloat nucPosID chromosome startPos bedEntry [] =
     bind_err (matchesBedEntry pyfloat chromosome startPos bedEntry) (\<lambda>m.
       if m then Inr (bedEntry, [])
       else Inl (AssertionError (''Match not found for '' @ nucPosID)))"
| "seekMatch pyfloat nucPosID chromosome startPos bedEntry (l # ls) =
     bind_err (matchesBedEntry pyfloat chromosome startPos bedEntry) (\<lambda>m.
       if m then Inr (bedEntry, l # ls)
       else if l = [] then Inl (AssertionError (''Match not found for '' @ nucPosID))
       else seekMatch pyfloat nucPosID chromosome startPos l ls)"

definition readline :: "string list \<Rightarrow> string \<times> string list" where
  "readline unread = (case unread of [] \<Rightarrow> ([], []) | l # ls \<Rightarrow> (l, ls))"

text \<open>
  Source lines 77 to 87: the entries written to the stratified map, and the exception
  that ended the loop, if any.
\<close>

fun writeMatches ::
  "(string \<Rightarrow> pyfloat option) \<Rightarrow> string list \<Rightarrow> string list \<Rightarrow> string list \<times> error option" where
  "writeMatches pyfloat [] unread = ([], None)"
| "writeMatches pyfloat (nucPosID # ids) unread =
     (case readline unread of (bedEntry, unread1) \<Rightarrow>
        (case bind_err (parseNucPosID pyfloat nucPosID) (\<lambda>(chromosome, startPos).
                seekMatch pyfloat nucPosID chromosome startPos bedEntry unread1) of
           Inl e \<Rightarrow> ([], Some e)
         | Inr (entry, unread2) \<Rightarrow>
             (case writeMatches pyfloat ids unread2 of (written, r) \<Rightarrow> (entry # written, r))))"

text \<open>
  Source lines 63 to 87 on the lines of the counts file and of the original map: \<open>Inl\<close>
  when reading the position IDs raised, before the stratified map is opened.
\<close>

definition rewritePass ::
  "(string \<Rightarrow> pyfloat option) \<Rightarrow> string list \<Rightarrow> string list \<Rightarrow> error + string list \<times> error option" where
  "rewritePass pyfloat encompassmentCounts originalNucMap =
     bind_err (readNucPosIDs (drop 1 encompassmentCounts)) (\<lambda>nucPosIDs.
       Inr (writeMatches pyfloat nucPosIDs originalNucMap))"

text \<open>
  One pass of the loop of \<^verbatim>\<open>stratifyNucleosomeMap\<close> (source lines 43 to 92). The
  counter is the library class \<^verbatim>\<open>ThisInThatCounter\<close>, which is not among the
  sources: \<open>counter\<close> gives the lines of the counts file it writes from the lines of
  the nucleosome map and of the stratifying features, or the exception it raises. The
  rewrite pass reads the original map as it is once the stratified map has been opened
  for writing, and so emptied; the stratified map is opened only when the position IDs
  have been read.
\<close>

definition originalNucMapFilePath :: "string \<Rightarrow> string" where
  "originalNucMapFilePath nucleosomeMapDir =
     path_join nucleosomeMapDir (basename nucleosomeMapDir @ ''.bed'')"

definition stratifiedNucMapFilePath :: "string \<Rightarrow> string" where
  "stratifiedNucMapFilePath stratifyingFeaturesMapFilePath =
     (let stratifiedNucMapDir = dirname stratifyingFeaturesMapFilePath
      in path_join stratifiedNucMapDir (basename stratifiedNucMapDir @ ''.bed''))"

definition stratificationConditionsFilePath :: "string \<Rightarrow> string" where
  "stratificationConditionsFilePath stratifyingFeaturesMapFilePath =
     (let stratifiedNucMapDir = dirname stratifyingFeaturesMapFilePath
      in path_join stratifiedNucMapDir ''stratification_conditions.txt'')"

definition intermediateDir :: "string \<Rightarrow> string" where
  "intermediateDir stratifyingFeaturesMapFilePath =
     (let stratifiedNucMapDir = dirname stratifyingFeaturesMapFilePath
      in path_join stratifiedNucMapDir ''intermediate_files'')"

definition encompassmentCountsFilePath :: "string \<Rightarrow> string" where
  "encompassmentCountsFilePath stratifyingFeaturesMapFilePath =
     (let stratifiedNucMapDir = dirname stratifyingFeaturesMapFilePath
      in path_join (intermediateDir stratifyingFeaturesMapFilePath)
           (basename stratifiedNucMapDir @ ''_encompassment_counts.tsv''))"

definition sameDirectoryMessage :: string where
  "sameDirectoryMessage =
     ''Stratifying features filepath is contained within the same directory as the given nucleosome map.''"

definition stratifyFile ::
  "(string list \<Rightarrow> string list \<Rightarrow> error + string list) \<Rightarrow> (string \<Rightarrow> pyfloat option)
     \<Rightarrow> string \<Rightarrow> world \<Rightarrow> string \<Rightarrow> world \<times> error option" where
  "stratifyFile counter pyfloat nucleosomeMapDir w path =
     (if nucleosomeMapDir = dirname path
      then (w, Some (AssertionError sameDirectoryMessage))
      else
        let original = originalNucMapFilePath nucleosomeMapDir;
            stratified = stratifiedNucMapFilePath path;
            conditions = stratificationConditionsFilePath path;
            countsPath = encompassmentCountsFilePath path;
            w1 = w\<lparr>trace := trace w @ [MakeDirs (intermediateDir path)]\<rparr>
        in case (files w1 original, files w1 path) of
             (Some nucleosomes, Some features) \<Rightarrow>
               (let w2 = w1\<lparr>trace := trace w1 @ [RunCounter original path countsPath]\<rparr>
                in case counter nucleosomes features of
                     Inl e \<Rightarrow> (w2, Some e)
                   | Inr counts \<Rightarrow>
                       (let w3 = w2\<lparr>files := (files w2)(countsPath \<mapsto> counts),
                                     trace := trace w2 @ [OpenRead countsPath]\<rparr>;
                            w4 = w3\<lparr>files := (files w3)(stratified \<mapsto> []),
                                     trace := trace w3 @ [OpenRead original, OpenWrite stratified]\<rparr>
                        in case files w4 original of
                             None \<Rightarrow> (w3, Some FileNotFoundError)
                           | Some originalLines \<Rightarrow>
                               (case rewritePass pyfloat counts originalLines of
                                  Inl e \<Rightarrow> (w3, Some e)
                                | Inr (written, Some e) \<Rightarrow>
                                    (w4\<lparr>files := (files w4)(stratified \<mapsto> written)\<rparr>, Some e)
                                | Inr (written, None) \<Rightarrow>
                                    (w4\<lparr>files := (files w4)
                                           (stratified \<mapsto> written,
                                            conditions \<mapsto>
                                              [''Derived from the original nucleosome map: ''
                                               @ basename original @ '' using ''
                                               @ basename path @ ''.'' @ nl]),
                                         trace := trace w4 @ [OpenWrite conditions]\<rparr>,
                                     None))))
           | _ \<Rightarrow> (w1, Some FileNotFoundError))"

fun stratifyNucleosomeMap ::
  "(string list \<Rightarrow> string list \<Rightarrow> error + string list) \<Rightarrow> (string \<Rightarrow> pyfloat option)
     \<Rightarrow> world \<Rightarrow> string \<Rightarrow> string list \<Rightarrow> world \<times> error option" where
  "stratifyNucleosomeMap counter pyfloat w nucleosomeMapDir [] = (w, None)"
| "stratifyNucleosomeMap counter pyfloat w nucleosomeMapDir (p # ps) =
     (case stratifyFile counter pyfloat nucleosomeMapDir w p of
        (w', Some e) \<Rightarrow> (w', Some e)
      | (w', None) \<Rightarrow> stratifyNucleosomeMap counter pyfloat w' nucleosomeMapDir ps)"

section \<open>The sorted-interval overlap counter\<close>

text \<open>
  Modelled from the spec: the counter that \<^verbatim>\<open>NucleosomeStratifier\<close> inherits from
  \<^verbatim>\<open>ThisInThatCounter\<close> is library code that is not among the sources. The data
  model is the spec's PositionRecord and EncompassingInterval; the identity of a record is
  its chromosome, position and strand.
\<close>

datatype strand = Plus | Minus | Unspecified

record PositionRecord =
  chromosome :: string
  position :: int
  strand :: strand
  rawLine :: string

record EncompassingInterval =
  iv_chromosome :: string
  iv_start :: int
  iv_end :: int


text \<open>
  Modelled from the spec: step 2 of the sweep of section 4.1, the cursor's advance for a
  record on chromosome \<open>c\<close> at position \<open>p\<close>. Intervals of chromosomes sorting before
  \<open>c\<close> are passed over; intervals of \<open>c\<close> that start at or before \<open>p\<close> are admitted to
  the active set; the cursor stops at the first interval beyond.
\<close>

fun admit ::
  "string \<Rightarrow> int \<Rightarrow> EncompassingInterval list \<Rightarrow> EncompassingInterval list
     \<Rightarrow> EncompassingInterval list \<times> EncompassingInterval list" where
  "admit c p [] active = ([], active)"
| "admit c p (iv # ivs) active =
     (if iv_chromosome iv < c then admit c p ivs active
      else if iv_chromosome iv = c \<and> iv_start iv \<le> p then admit c p ivs (iv # active)
      else (iv # ivs, active))"

text \<open>
  Modelled from the spec: the eviction of step 2 and the reset of step 4. Intervals that
  end before \<open>p\<close>, and intervals of another chromosome, leave the active set.
\<close>

definition evict :: "string \<Rightarrow> int \<Rightarrow> EncompassingInterval list \<Rightarrow> EncompassingInterval list" where
  "evict c p active = filter (\<lambda>iv. iv_chromosome iv = c \<and> p \<le> iv_end iv) active"

text \<open>
  Modelled from the spec: the sweep over the encompassed records in file order; the count
  of a record is the size of the active set after admission and eviction (step 3), and one
  count is produced per record.
\<close>

fun sweep ::
  "EncompassingInterval list \<Rightarrow> EncompassingInterval list \<Rightarrow> PositionRecord list
     \<Rightarrow> (PositionRecord \<times> nat) list" where
  "sweep cursor active [] = []"
| "sweep cursor active (r # rs) =
     (case admit (chromosome r) (position r) cursor active of
        (cursor', admitted) \<Rightarrow>
          (let active' = evict (chromosome r) (position r) admitted
           in (r, length active') # sweep cursor' active' rs))"

text \<open>
  Modelled from the spec: the counter's result, one count per encompassed record in
  encompassed-file order, from a cursor at the first interval and an empty active set.
\<close>

definition countOverlaps ::
  "EncompassingInterval list \<Rightarrow> PositionRecord list \<Rightarrow> (PositionRecord \<times> nat) list" where
  "countOverlaps encompassing encompassed = sweep encompassing [] encompassed"

text \<open>
  The brute-force count of the spec's testable properties, and the sort order that both
  inputs are required to have (chromosome as text, then position as a number).
\<close>

definition contains :: "EncompassingInterval \<Rightarrow> PositionRecord \<Rightarrow> bool" where
  "contains iv r =
     (iv_chromosome iv = chromosome r \<and> iv_start iv \<le> position r \<and> position r \<le> iv_end iv)"

definition bruteForceCount :: "EncompassingInterval list \<Rightarrow> PositionRecord \<Rightarrow> nat" where
  "bruteForceCount encompassing r = length (filter (\<lambda>iv. contains iv r) encompassing)"

definition key_le :: "string \<times> int \<Rightarrow> string \<times> int \<Rightarrow> bool" where
  "key_le a b = (fst a < fst b \<or> (fst a = fst b \<and> snd a \<le> snd b))"

definition sortedIntervals :: "EncompassingInterval list \<Rightarrow> bool" where
  "sortedIntervals ivs =
     sorted_wrt (\<lambda>a b. key_le (iv_chromosome a, iv_start a) (iv_chromosome b, iv_start b)) ivs"

definition sortedRecords :: "PositionRecord list \<Rightarrow> bool" where
  "sortedRecords rs =
     sorted_wrt (\<lambda>a b. key_le (chromosome a, position a) (chromosome b, position b)) rs"

section \<open>RunAnalysisSuite.py\<close>

text \<open>
  The stages of the pipeline and the helpers that look at the file system are other
  modules: the model records each call of a stage, with its arguments, and takes what the
  stages and helpers return from the record \<open>collaborators\<close>. The stages are taken to
  return.
\<close>

datatype call =
    ExpandContext "string list" int
  | CountNucleosomePositionMutations "string list" "string list" bool bool int
  | GenerateMutationBackground "string list" int
  | GenerateNucleosomeMutationBackground "string list" "string list" bool bool int
  | NormalizeCounts "string list"
  | NormalizeCountsCustom "string list" "string list" "string option"
  | MainUI

record collaborators =
  getContext :: "string \<Rightarrow> int option"
  expandContext :: "string list \<Rightarrow> int \<Rightarrow> string list"
  countNucleosomePositionMutations :: "string list \<Rightarrow> string list \<Rightarrow> bool \<Rightarrow> bool \<Rightarrow> int \<Rightarrow> string list"
  generateMutationBackground :: "string list \<Rightarrow> int \<Rightarrow> string list"
  generateNucleosomeMutationBackground :: "string list \<Rightarrow> string list \<Rightarrow> bool \<Rightarrow> bool \<Rightarrow> int \<Rightarrow> string list"
  isdir :: "string \<Rightarrow> bool"
  abspath :: "string \<Rightarrow> string"
  getFilesInDirectory :: "string \<Rightarrow> string list"
  getFileInDirectory :: "string \<Rightarrow> string option"
  getIsolatedParentDir :: "string \<Rightarrow> string"
  listOfSet :: "string list \<Rightarrow> string list"

text \<open>Source lines 42 to 50: \<open>None\<close> is Python's \<^verbatim>\<open>None\<close>.\<close>

definition normalizationMethodNum :: "string \<Rightarrow> error + int option" where
  "normalizationMethodNum normalizationMethod =
     (if normalizationMethod = ''Singlenuc/Dinuc'' then Inr (Some 1)
      else if normalizationMethod = ''Trinuc/Quadrunuc'' then Inr (Some 3)
      else if normalizationMethod = ''Pentanuc/Hexanuc'' then Inr (Some 5)
      else if normalizationMethod \<in> set [''No Normalization'', ''Custom Background''] then Inr None
      else Inl ValueError)"

text \<open>
  Source lines 62 to 72: the loop that checks the context of each mutation file and expands
  it where it is too low, one file after the other. The third assertion builds its message
  by adding a function to a string, which raises TypeError.
\<close>

fun updateMutationFilePaths ::
  "collaborators \<Rightarrow> int \<Rightarrow> string list \<Rightarrow> string list \<times> call list \<times> error option" where
  "updateMutationFilePaths col num [] = ([], [], None)"
| "updateMutationFilePaths col num (mutationFilePath # rest) =
     (case getContext col mutationFilePath of
        None \<Rightarrow>
          ([], [], Some (AssertionError (''Malformed file name.  Context is not clear for ''
                                          @ basename mutationFilePath)))
      | Some mutationFileContext \<Rightarrow>
          if mutationFileContext = 0
          then ([], [], Some (AssertionError ''Mixed context files cannot be normalized by sequence context.''))
          else if mutationFileContext = - 1 then ([], [], Some TypeError)
          else
            (let (here, calls) =
                   (if mutationFileContext < num
                    then (expandContext col [mutationFilePath] num, [ExpandContext [mutationFilePath] num])
                    else ([mutationFilePath], []))
             in case updateMutationFilePaths col num rest of
                  (updated, calls', r) \<Rightarrow> (here @ updated, calls @ calls', r)))"

definition runAnalysisSuite ::
  "collaborators \<Rightarrow> string list \<Rightarrow> string list \<Rightarrow> string \<Rightarrow> string option \<Rightarrow> bool \<Rightarrow> bool \<Rightarrow> bool
     \<Rightarrow> call list \<times> error option" where
  "runAnalysisSuite col mutationFilePaths nucleosomeMapNames normalizationMethod customBackgroundDir
       useSingleNucRadius includeLinker useNucGroupRadius =
     (if \<not> useNucGroupRadius \<and> \<not> useSingleNucRadius then ([], Some ValueError)
      else if \<not> length mutationFilePaths > 0
      then ([], Some (AssertionError ''No valid input files given.''))
      else
        case normalizationMethodNum normalizationMethod of
          Inl e \<Rightarrow> ([], Some e)
        | Inr num \<Rightarrow>
            (let linkerOffset = (if includeLinker then 30 else 0) in
             case (case num of
                     Some n \<Rightarrow> updateMutationFilePaths col n mutationFilePaths
                   | None \<Rightarrow> (mutationFilePaths, [], None)) of
               (updated, calls, Some e) \<Rightarrow> (calls, Some e)
             | (updated, calls, None) \<Rightarrow>
                 (let counts = countNucleosomePositionMutations col updated nucleosomeMapNames
                                 useSingleNucRadius useNucGroupRadius linkerOffset;
                      calls1 = calls @ [CountNucleosomePositionMutations updated nucleosomeMapNames
                                          useSingleNucRadius useNucGroupRadius linkerOffset]
                  in case num of
                       Some n \<Rightarrow>
                         (let background = generateMutationBackground col updated n;
                              nucBackground = generateNucleosomeMutationBackground col background
                                                nucleosomeMapNames useSingleNucRadius useNucGroupRadius
                                                linkerOffset
                          in (calls1 @ [GenerateMutationBackground updated n,
                                        GenerateNucleosomeMutationBackground background nucleosomeMapNames
                                          useSingleNucRadius useNucGroupRadius linkerOffset,
                                        NormalizeCounts nucBackground], None))
                     | None \<Rightarrow>
                         if normalizationMethod = ''Custom Background''
                         then (calls1 @ [NormalizeCountsCustom [] counts customBackgroundDir], None)
                         else (calls1, None))))"

definition generateCustomBackground ::
  "collaborators \<Rightarrow> string \<Rightarrow> string list \<Rightarrow> bool \<Rightarrow> bool \<Rightarrow> bool \<Rightarrow> call list \<times> error option" where
  "generateCustomBackground col customBackgroundDir nucleosomeMapNames useSingleNucRadius
       includeLinker useNucGroupRadius =
     (case getFileInDirectory col customBackgroundDir of
        None \<Rightarrow> ([], Some (AssertionError (''No parsed mutation file in the directory ''
                                             @ customBackgroundDir)))
      | Some customBackgroundMutationFilePath \<Rightarrow>
          runAnalysisSuite col [customBackgroundMutationFilePath] nucleosomeMapNames
            ''No Normalization'' None useSingleNucRadius includeLinker useNucGroupRadius)"

text \<open>
  The parsed command line. \<^verbatim>\<open>parseArgs\<close> also looks at the length of
  \<^verbatim>\<open>sys.argv\<close>, here \<open>argc\<close>: with the subcommand alone it runs the dialog.
\<close>

record args =
  mutation_file_paths :: "string list option"
  nucleosome_maps :: "string list option"
  context_normalization :: "int option"
  background :: "string option"
  generate_background_immediately :: bool
  singlenuc_radius :: bool
  add_linker :: bool
  nuc_group_radius :: bool

definition parseArgs :: "collaborators \<Rightarrow> nat \<Rightarrow> args \<Rightarrow> call list \<times> error option" where
  "parseArgs col argc a =
     (if argc = 2 then ([MainUI], None)
      else
        case mutation_file_paths a of
          None \<Rightarrow> ([], Some (AssertionError ''No mutation file paths were given.''))
        | Some paths \<Rightarrow>
            (let finalBedMutationPaths =
                   concat (map (\<lambda>mutationFilePath.
                             if isdir col mutationFilePath
                             then map (abspath col) (getFilesInDirectory col mutationFilePath)
                             else [abspath col mutationFilePath]) paths)
             in if \<not> length finalBedMutationPaths > 0
                then ([], Some (AssertionError ''No bed mutation files were found.''))
                else
                  case nucleosome_maps a of
                    None \<Rightarrow> ([], Some (AssertionError ''No nucleosome maps were given.''))
                  | Some maps \<Rightarrow>
                      (let nucleosomeMapNames =
                             map (\<lambda>nucleosomeMapPath.
                                   if isdir col nucleosomeMapPath then basename nucleosomeMapPath
                                   else getIsolatedParentDir col (abspath col nucleosomeMapPath)) maps;
                           run = (\<lambda>normalizationMethod customBackgroundDir.
                                   runAnalysisSuite col (listOfSet col finalBedMutationPaths)
                                     (listOfSet col nucleosomeMapNames) normalizationMethod
                                     customBackgroundDir (singlenuc_radius a) (add_linker a)
                                     (nuc_group_radius a))
                       in if \<not> length nucleosomeMapNames > 0
                          then ([], Some (AssertionError ''No nucleosome maps were found.''))
                          else if context_normalization a = Some 1 \<or> context_normalization a = Some 2
                          then run ''Singlenuc/Dinuc'' None
                          else if context_normalization a = Some 3 \<or> context_normalization a = Some 4
                          then run ''Trinuc/Quadrunuc'' None
                          else if context_normalization a = Some 5 \<or> context_normalization a = Some 6
                          then run ''Pentanuc/Hexanuc'' None
                          else
                            case background a of
                              Some bg \<Rightarrow>
                                (let customBackgroundDir =
                                       (if isdir col bg then abspath col bg
                                        else dirname (abspath col bg))
                                 in if generate_background_immediately a
                                    then (case generateCustomBackground col customBackgroundDir
                                                 nucleosomeMapNames (singlenuc_radius a) (add_linker a)
                                                 (nuc_group_radius a) of
                                            (calls, Some e) \<Rightarrow> (calls, Some e)
                                          | (calls, None) \<Rightarrow>
                                              (case run ''Custom Background'' (Some customBackgroundDir) of
                                                 (calls', r) \<Rightarrow> (calls @ calls', r)))
                                    else run ''Custom Background'' (Some customBackgroundDir))
                            | None \<Rightarrow>
                                if generate_background_immediately a
                                then ([], Some (AssertionError
                                        ''Background generation requested, but no background given.''))
                                else run ''No Normalization'' None)))"

section \<open>Notions used to state the properties\<close>

text \<open>
  A row of the counts file is retained when its second field is not the text
  \<^verbatim>\<open>0\<close>; the ID of a row matches a line of the map when \<^verbatim>\<open>matchesBedEntry\<close>
  holds of the chromosome and position read from the stripped row.
\<close>

definition retainedRow :: "string \<Rightarrow> bool" where
  "retainedRow row = (case py_index (py_split row) 1 of Inl e \<Rightarrow> False | Inr c \<Rightarrow> c \<noteq> ''0'')"

definition idMatches :: "(string \<Rightarrow> pyfloat option) \<Rightarrow> string \<Rightarrow> string \<Rightarrow> bool" where
  "idMatches pyfloat row line =
     (case parseNucPosID pyfloat (py_strip row) of
        Inl e \<Rightarrow> False
      | Inr (c, p) \<Rightarrow> matchesBedEntry pyfloat c p line = Inr True)"

text \<open>A row belongs to a line: it has its two fields, and its ID matches the line.\<close>

definition rowOf :: "(string \<Rightarrow> pyfloat option) \<Rightarrow> string \<Rightarrow> string \<Rightarrow> bool" where
  "rowOf pyfloat row line = (2 \<le> length (py_split row) \<and> idMatches pyfloat row line)"

text \<open>
  Rows paired with their lines, in file order: every row belongs to its line, and a line
  that is not retained is not matched by the ID of any retained row after it.
\<close>

fun aligned :: "(string \<Rightarrow> pyfloat option) \<Rightarrow> (string \<times> string) list \<Rightarrow> bool" where
  "aligned pyfloat [] = True"
| "aligned pyfloat ((row, line) # ps) =
     (rowOf pyfloat row line
      \<and> (\<not> retainedRow row \<longrightarrow>
           (\<forall>(row', line') \<in> set ps. retainedRow row' \<longrightarrow> \<not> idMatches pyfloat row' line))
      \<and> aligned pyfloat ps)"

section \<open>Concrete files\<close>

text \<open>
  A reader for concrete files: on an integer literal of magnitude at most \<open>2^53\<close>
  Python's \<^verbatim>\<open>float\<close> returns exactly that integer. This reader accepts only such
  texts, and agrees with \<^verbatim>\<open>float\<close> on every text it accepts.
\<close>

definition float_of_int_literal :: "string \<Rightarrow> pyfloat option" where
  "float_of_int_literal s =
     (case py_int s of
        None \<Rightarrow> None
      | Some n \<Rightarrow> if \<bar>n\<bar> \<le> 2 ^ 53 then Some (Finite (of_int n)) else None)"

text \<open>
  Small inputs on which the model is evaluated. A bed line is its columns joined by tabs
  and ended by a newline; the counts file has the header row and one row per nucleosome.
\<close>

definition bedLine :: "string list \<Rightarrow> string" where
  "bedLine cols = py_join tab cols @ nl"

definition countsHeader :: string where
  "countsHeader = bedLine [''Nucleosome'', ''Encompassing_Feature_Counts'']"

definition nucA :: string where
  "nucA = bedLine [''chr1'', ''100'', ''101'', ''.'', ''.'', ''+'']"

definition nucB :: string where
  "nucB = bedLine [''chr1'', ''250'', ''251'', ''.'', ''.'', ''-'']"

definition nucC :: string where
  "nucC = bedLine [''chr2'', ''100'', ''101'', ''.'', ''.'', ''+'']"


definition rowA :: string where
  "rowA = bedLine [''chr1:100(+)'', ''1'']"

definition rowB :: string where
  "rowB = bedLine [''chr1:250(-)'', ''0'']"

definition rowC :: string where
  "rowC = bedLine [''chr2:100(+)'', ''2'']"


text \<open>
  A substitutions line with the given designation and reference base, and stand-ins for
  the two sequence helpers on the DNA alphabet.
\<close>

definition kucabExampleLine :: "string \<Rightarrow> string \<Rightarrow> string" where
  "kucabExampleLine designation ref =
     bedLine [''MSM0.103_s1'', ''sample'', ''1'', ''subs'', ''7'', ''1500'', ref, ''T'', ''x'', ''y'',
              ''z'', ''u'', ''v'', ''A'', ''C'', designation]"

definition complementBase :: "char \<Rightarrow> char" where
  "complementBase c =
     (if c = CHR ''A'' then CHR ''T'' else if c = CHR ''T'' then CHR ''A''
      else if c = CHR ''C'' then CHR ''G'' else if c = CHR ''G'' then CHR ''C'' else c)"

definition exampleIsPurine :: "string \<Rightarrow> error + bool" where
  "exampleIsPurine s = Inr (s = ''A'' \<or> s = ''G'')"

definition exampleReverseCompliment :: "string \<Rightarrow> error + string" where
  "exampleReverseCompliment s = Inr (rev (map complementBase s))"

definition isPurineBase :: "char \<Rightarrow> bool" where
  "isPurineBase c = (c = CHR ''A'' \<or> c = CHR ''G'')"

definition isPyrimidineBase :: "char \<Rightarrow> bool" where
  "isPyrimidineBase c = (c = CHR ''C'' \<or> c = CHR ''T'')"

definition isBase :: "char \<Rightarrow> bool" where
  "isBase c = (isPurineBase c \<or> isPyrimidineBase c)"

text \<open>
  A file system for the examples. \<open>exampleParentDir\<close> stands for
  \<^verbatim>\<open>getIsolatedParentDir\<close>, \<open>keepOrder\<close> for the external sort on lines that are
  in order already, and \<open>exampleCounter\<close> for the library counter on the example map
  and features: the first nucleosome lies in one range, the second in none, the third
  in two.
\<close>

definition exampleParentDir :: "string \<Rightarrow> string" where
  "exampleParentDir p = basename (dirname p)"

definition keepOrder :: "string list \<Rightarrow> string list" where
  "keepOrder ls = ls"

definition uvdeGood :: string where
  "uvdeGood = bedLine [''chr1'', ''10'', ''12'', ''.'', ''.'', ''+'']"

definition uvdeShort :: string where
  "uvdeShort = bedLine [''chr1'', ''20'', ''22'', ''.'', ''.'']"

definition uvdeWorld :: world where
  "uvdeWorld = \<lparr>files = [''/data/uvde/lesions.bed'' \<mapsto> [uvdeGood, uvdeShort]], trace = []\<rparr>"

definition exampleFeatures :: "string list" where
  "exampleFeatures =
     [bedLine [''chr1'', ''50'', ''150''], bedLine [''chr2'', ''90'', ''110''],
      bedLine [''chr2'', ''100'', ''300'']]"

definition exampleCounter :: "string list \<Rightarrow> string list \<Rightarrow> error + string list" where
  "exampleCounter nucleosomes features =
     (if nucleosomes = [nucA, nucB, nucC] \<and> features = exampleFeatures
      then Inr [countsHeader, rowA, rowB, rowC]
      else Inl ValueError)"

definition stratifyWorld :: world where
  "stratifyWorld =
     \<lparr>files = [''/data/maps/nuc/nuc.bed'' \<mapsto> [nucA, nucB, nucC],
               ''/data/maps/peaks/peaks.narrowPeak'' \<mapsto> exampleFeatures],
      trace = []\<rparr>"

text \<open>
  Collaborators for the examples: the context of a mutation file is read off its name,
  and the stages return no paths.
\<close>

definition exampleCollaborators :: collaborators where
  "exampleCollaborators =
     \<lparr>getContext = (\<lambda>p. if p = ''a_singlenuc_context_mutations.bed'' then Some 1
                          else if p = ''b_mixed_context_mutations.bed'' then Some 0
                          else None),
      expandContext = (\<lambda>ps n. ps),
      countNucleosomePositionMutations = (\<lambda>ps ms single group offset. []),
      generateMutationBackground = (\<lambda>ps n. []),
      generateNucleosomeMutationBackground = (\<lambda>ps ms single group offset. []),
      isdir = (\<lambda>p. False),
      abspath = (\<lambda>p. p),
      getFilesInDirectory = (\<lambda>p. []),
      getFileInDirectory = (\<lambda>p. None),
      getIsolatedParentDir = exampleParentDir,
      listOfSet = remdups\<rparr>"

definition exampleArgs :: "int option \<Rightarrow> args" where
  "exampleArgs normalization =
     \<lparr>mutation_file_paths = Some [''a_singlenuc_context_mutations.bed''],
      nucleosome_maps = Some [''/data/maps/nuc/nuc.bed''],
      context_normalization = normalization,
      background = None,
      generate_background_immediately = True,
      singlenuc_radius = True,
      add_linker = False,
      nuc_group_radius = False\<rparr>"

text \<open>Records and intervals for the examples of the counter.\<close>

definition point :: "string \<Rightarrow> int \<Rightarrow> strand \<Rightarrow> PositionRecord" where
  "point c p s = \<lparr>chromosome = c, position = p, strand = s, rawLine = []\<rparr>"

definition interval :: "string \<Rightarrow> int \<Rightarrow> int \<Rightarrow> EncompassingInterval" where
  "interval c s e = \<lparr>iv_chromosome = c, iv_start = s, iv_end = e\<rparr>"

definition exampleIntervals :: "EncompassingInterval list" where
  "exampleIntervals =
     [interval ''chr0'' 140 160, interval ''chr1'' 100 200, interval ''chr1'' 150 300,
      interval ''chr2'' 160 170]"

definition examplePoints :: "PositionRecord list" where
  "examplePoints =
     [point ''chr1'' 99 Plus, point ''chr1'' 100 Plus, point ''chr1'' 100 Minus,
      point ''chr1'' 150 Plus, point ''chr1'' 300 Plus, point ''chr1'' 301 Plus,
      point ''chr2'' 150 Plus]"



section \<open>Properties of the text primitives\<close>

lemma splitOn_nonempty: "splitOn sep acc s \<noteq> []"
  by (induction s arbitrary: acc) auto

section \<open>Properties of the paths\<close>

lemma basename_no_slash: "CHR ''/'' \<notin> set (basename d)"
  by (auto simp: basename_def dest: set_takeWhileD)

lemma basename_trailing_slash: "d = [] \<or> last d = CHR ''/'' \<Longrightarrow> basename d = []"
  by (cases d rule: rev_cases) (auto simp: basename_def)

lemma basename_nonempty: "d \<noteq> [] \<Longrightarrow> last d \<noteq> CHR ''/'' \<Longrightarrow> basename d \<noteq> []"
  by (cases d rule: rev_cases) (auto simp: basename_def)

lemma path_join_relative:
  assumes "b \<noteq> []" "hd b \<noteq> CHR ''/''"
  shows "path_join a b = (if a = [] \<or> last a = CHR ''/'' then a @ b else a @ ''/'' @ b)"
  using assms by (simp add: path_join_def)

lemma last_path_join: "b \<noteq> [] \<Longrightarrow> last (path_join a b) = last b"
  by (simp add: path_join_def)

lemma own_bed_path:
  "path_join d (basename d @ ''.bed'')
   = (if d = [] \<or> last d = CHR ''/'' then d @ ''.bed'' else d @ ''/'' @ basename d @ ''.bed'')"
proof -
  have "hd (basename d @ ''.bed'') \<noteq> CHR ''/''"
    using basename_no_slash [of d] by (cases "basename d") auto
  then show ?thesis
    using basename_trailing_slash [of d] by (auto simp: path_join_relative)
qed

lemma head_of_dir_and_name:
  assumes "CHR ''/'' \<notin> set b"
  shows "rev (dropWhile (\<lambda>c. c \<noteq> CHR ''/'') (rev (d @ ''/'' @ b))) = d @ ''/''"
proof -
  have "dropWhile (\<lambda>c. c \<noteq> CHR ''/'') (rev b @ CHR ''/'' # rev d) = CHR ''/'' # rev d"
    using assms by (subst dropWhile_append2) auto
  then show ?thesis by simp
qed

lemma own_bed_path_inj:
  assumes "path_join d (basename d @ ''.bed'') = path_join d' (basename d' @ ''.bed'')"
  shows "d = d'"
proof -
  define G where "G x = (if x = [] \<or> last x = CHR ''/'' then x else x @ ''/'' @ basename x)" for x
  have F: "path_join x (basename x @ ''.bed'') = G x @ ''.bed''" for x
    by (simp add: own_bed_path G_def)
  from assms have G: "G d = G d'" by (simp add: F)
  have shape: "(G x = [] \<or> last (G x) = CHR ''/'') \<longleftrightarrow> (x = [] \<or> last x = CHR ''/'')" for x
  proof -
    have "last (basename x) \<noteq> CHR ''/''" if "x \<noteq> []" "last x \<noteq> CHR ''/''"
      using basename_nonempty [OF that] basename_no_slash [of x] last_in_set [of "basename x"]
      by metis
    then show ?thesis using basename_nonempty [of x] by (auto simp: G_def)
  qed
  show ?thesis
  proof (cases "d = [] \<or> last d = CHR ''/''")
    case True
    with shape [of d] shape [of d'] G have "d' = [] \<or> last d' = CHR ''/''" by simp
    with True G show ?thesis by (simp add: G_def)
  next
    case False
    with shape [of d] shape [of d'] G have F': "\<not> (d' = [] \<or> last d' = CHR ''/'')" by simp
    from False F' G have "d @ ''/'' @ basename d = d' @ ''/'' @ basename d'"
      by (simp add: G_def)
    then have "rev (dropWhile (\<lambda>c. c \<noteq> CHR ''/'') (rev (d @ ''/'' @ basename d)))
             = rev (dropWhile (\<lambda>c. c \<noteq> CHR ''/'') (rev (d' @ ''/'' @ basename d')))" by simp
    then have "d @ ''/'' = d' @ ''/''"
      by (simp only: head_of_dir_and_name [OF basename_no_slash])
    then show ?thesis by simp
  qed
qed

lemma last_own_bed_path: "last (originalNucMapFilePath d) = CHR ''d''"
  by (simp add: originalNucMapFilePath_def last_path_join)

lemma written_paths_differ:
  assumes "dir \<noteq> dirname q"
  shows "stratifiedNucMapFilePath q \<noteq> originalNucMapFilePath dir"
    and "stratificationConditionsFilePath q \<noteq> originalNucMapFilePath dir"
    and "encompassmentCountsFilePath q \<noteq> originalNucMapFilePath dir"
    and "stratificationConditionsFilePath q \<noteq> stratifiedNucMapFilePath q"
proof -
  show "stratifiedNucMapFilePath q \<noteq> originalNucMapFilePath dir"
    using assms own_bed_path_inj [of dir "dirname q"]
    by (auto simp: stratifiedNucMapFilePath_def originalNucMapFilePath_def Let_def)
  have t: "last (stratificationConditionsFilePath q) = CHR ''t''"
    by (simp add: stratificationConditionsFilePath_def last_path_join)
  have v: "last (encompassmentCountsFilePath q) = CHR ''v''"
    by (simp add: encompassmentCountsFilePath_def last_path_join)
  have d: "last (stratifiedNucMapFilePath q) = CHR ''d''"
    by (simp add: stratifiedNucMapFilePath_def Let_def last_path_join)
  show "stratificationConditionsFilePath q \<noteq> originalNucMapFilePath dir"
    using t last_own_bed_path [of dir] by auto
  show "encompassmentCountsFilePath q \<noteq> originalNucMapFilePath dir"
    using v last_own_bed_path [of dir] by auto
  show "stratificationConditionsFilePath q \<noteq> stratifiedNucMapFilePath q"
    using t d by auto
qed

section \<open>Properties of the rewrite pass\<close>

lemma matchesBedEntry_empty: "matchesBedEntry pf c p [] = Inl ValueError"
  by (simp add: matchesBedEntry_def py_split_def)

lemma matchesBedEntry_total_nonempty: "matchesBedEntry pf c p l = Inr b \<Longrightarrow> l \<noteq> []"
  by (auto simp: matchesBedEntry_empty)

lemma parseNucPosID_error: "parseNucPosID pf i = Inl e \<Longrightarrow> e = ValueError"
  using splitOn_nonempty
  by (auto simp: parseNucPosID_def py_split_sep_def split: list.splits option.splits)

lemma writeMatches_at_eof: "writeMatches pf (nucPosID # ids) [] = ([], Some ValueError)"
proof (cases "parseNucPosID pf nucPosID")
  case (Inl e)
  then show ?thesis
    using parseNucPosID_error [OF Inl] by (simp add: readline_def bind_err_def)
next
  case (Inr cp)
  then show ?thesis
    by (cases cp) (simp add: readline_def bind_err_def matchesBedEntry_empty)
qed

lemma readNucPosIDs_rows:
  "\<forall>row \<in> set rows. 2 \<le> length (py_split row) \<Longrightarrow>
   readNucPosIDs rows = Inr (map py_strip (filter retainedRow rows))"
  by (induction rows) (auto simp: bind_err_def py_index_def retainedRow_def)

lemma writeMatches_hit:
  assumes "parseNucPosID pf nucPosID = Inr (c, p)" "matchesBedEntry pf c p l = Inr True"
  shows "writeMatches pf (nucPosID # ids) (l # ls) =
         (case writeMatches pf ids ls of (written, r) \<Rightarrow> (l # written, r))"
  using assms by (cases ls) (simp_all add: readline_def bind_err_def)

lemma writeMatches_skip:
  assumes "parseNucPosID pf nucPosID = Inr (c, p)" "matchesBedEntry pf c p l = Inr False" "l' \<noteq> []"
  shows "writeMatches pf (nucPosID # ids) (l # l' # ls) = writeMatches pf (nucPosID # ids) (l' # ls)"
  using assms by (simp add: readline_def bind_err_def)

lemma idMatches_cases:
  assumes "idMatches pf row line"
  obtains c p where "parseNucPosID pf (py_strip row) = Inr (c, p)" "matchesBedEntry pf c p line = Inr True"
  using assms by (auto simp: idMatches_def split: sum.splits)

lemma matches_defined:
  assumes "matchesBedEntry pf c p line = Inr True"
  shows "\<exists>b. matchesBedEntry pf c' p' line = Inr b"
  using assms
  by (auto simp: matchesBedEntry_def split: list.splits if_splits option.splits)

lemma aligned_rowOf: "aligned pf ps \<Longrightarrow> b \<in> set ps \<Longrightarrow> rowOf pf (fst b) (snd b)"
  by (induction ps) auto

lemma aligned_own_row: "aligned pf ps \<Longrightarrow> b \<in> set ps \<Longrightarrow> idMatches pf (fst b) (snd b)"
  using aligned_rowOf [of pf ps b] by (simp add: rowOf_def)

lemma aligned_rewrite:
  "aligned pf ps \<Longrightarrow>
   writeMatches pf (map (\<lambda>x. py_strip (fst x)) (filter (\<lambda>x. retainedRow (fst x)) ps)) (map snd ps)
     = (map snd (filter (\<lambda>x. retainedRow (fst x)) ps), None)"
proof (induction ps)
  case Nil
  then show ?case by simp
next
  case (Cons a ps)
  obtain row line where a: "a = (row, line)" by (cases a)
  from Cons.prems a have own: "idMatches pf row line" and al: "aligned pf ps"
    by (simp_all add: rowOf_def)
  from own obtain c p where cp: "parseNucPosID pf (py_strip row) = Inr (c, p)"
    "matchesBedEntry pf c p line = Inr True" by (rule idMatches_cases)
  note IH = Cons.IH [OF al]
  show ?case
  proof (cases "retainedRow row")
    case True
    then show ?thesis
      using writeMatches_hit [OF cp] IH a by simp
  next
    case False
    show ?thesis
    proof (cases "filter (\<lambda>x. retainedRow (fst x)) ps")
      case Nil
      then show ?thesis using False a by simp
    next
      case (Cons b bs)
      then have bin: "b \<in> set ps" and bret: "retainedRow (fst b)"
        using filter_eq_ConsD [OF Cons] by auto
      obtain row' line' where b: "b = (row', line')" by (cases b)
      from Cons.prems a False bin bret b have nomatch: "\<not> idMatches pf row' line"
        by auto
      have "ps \<noteq> []" using bin by auto
      then obtain q qs where ps: "ps = q # qs" by (cases ps) auto
      obtain rq lq where q: "q = (rq, lq)" by (cases q)
      from al ps q have "idMatches pf rq lq" by (simp add: rowOf_def)
      then have lq: "lq \<noteq> []"
        by (auto elim!: idMatches_cases dest: matchesBedEntry_total_nonempty)
      from aligned_own_row [OF al bin] b have "idMatches pf row' line'" by simp
      then obtain c' p' where cp': "parseNucPosID pf (py_strip row') = Inr (c', p')"
        by (auto elim: idMatches_cases)
      from matches_defined [OF cp(2)] obtain bb where "matchesBedEntry pf c' p' line = Inr bb" by blast
      with nomatch cp' have "matchesBedEntry pf c' p' line = Inr False"
        by (cases bb) (auto simp: idMatches_def)
      from writeMatches_skip [OF cp' this lq]
      have "writeMatches pf (py_strip row' # map (\<lambda>x. py_strip (fst x)) bs) (line # lq # map snd qs)
            = writeMatches pf (py_strip row' # map (\<lambda>x. py_strip (fst x)) bs) (lq # map snd qs)" .
      then show ?thesis
        using IH False a Cons b ps q by simp
    qed
  qed
qed

lemma aligned_intro:
  assumes "\<forall>(row, line) \<in> set ps. rowOf pf row line"
      and "\<forall>(row, line) \<in> set ps. \<forall>(row', line') \<in> set ps.
             idMatches pf row' line \<longrightarrow> retainedRow row' = retainedRow row"
  shows "aligned pf ps"
  using assms
proof (induction ps)
  case Nil
  then show ?case by simp
next
  case (Cons a ps)
  obtain row line where a: "a = (row, line)" by (cases a)
  have "aligned pf ps"
    by (rule Cons.IH) (use Cons.prems in auto)
  moreover have "rowOf pf row line" using Cons.prems(1) a by simp
  moreover have "\<forall>(row', line') \<in> set ps. retainedRow row' \<longrightarrow> \<not> retainedRow row
                   \<longrightarrow> \<not> idMatches pf row' line"
    using Cons.prems(2) a by fastforce
  ultimately show ?case using a by auto
qed

lemma rewritePass_aligned:
  assumes len: "length rows = length lines"
      and al: "aligned pf (zip rows lines)"
  shows "rewritePass pf (header # rows) lines
         = Inr (map snd (filter (\<lambda>(row, line). retainedRow row) (zip rows lines)), None)"
proof -
  have rows: "\<forall>row \<in> set rows. 2 \<le> length (py_split row)"
  proof
    fix row assume "row \<in> set rows"
    then obtain i where "i < length rows" "rows ! i = row" by (auto simp: in_set_conv_nth)
    with len have "(row, lines ! i) \<in> set (zip rows lines)"
      by (auto simp: set_zip)
    from aligned_rowOf [OF al this] show "2 \<le> length (py_split row)"
      by (simp add: rowOf_def)
  qed
  have ids: "readNucPosIDs rows
             = Inr (map (\<lambda>x. py_strip (fst x)) (filter (\<lambda>x. retainedRow (fst x)) (zip rows lines)))"
  proof -
    have "map py_strip (filter retainedRow (map fst ps))
          = map (\<lambda>x. py_strip (fst x)) (filter (\<lambda>x. retainedRow (fst x)) ps)" for ps :: "(string \<times> string) list"
      by (induction ps) auto
    from this [of "zip rows lines"] len readNucPosIDs_rows [OF rows] show ?thesis by simp
  qed
  have "(\<lambda>(row, line). retainedRow row) = (\<lambda>x :: string \<times> string. retainedRow (fst x))"
    by (auto simp: fun_eq_iff)
  then show ?thesis
    using aligned_rewrite [OF al] ids len by (simp add: rewritePass_def bind_err_def)
qed

lemma seekMatch_exhausted:
  assumes "\<forall>l \<in> set (bedEntry # unread). matchesBedEntry pf c p l = Inr False"
  shows "seekMatch pf nucPosID c p bedEntry unread
         = Inl (AssertionError (''Match not found for '' @ nucPosID))"
  using assms
proof (induction unread arbitrary: bedEntry)
  case Nil
  then show ?case by (simp add: bind_err_def)
next
  case (Cons l ls)
  then have "l \<noteq> []" by (auto dest: matchesBedEntry_total_nonempty)
  with Cons show ?case by (simp add: bind_err_def)
qed

lemma stratifyFile_rewrites:
  assumes dir: "nucleosomeMapDir \<noteq> dirname path"
      and orig: "files w (originalNucMapFilePath nucleosomeMapDir) = Some lines"
      and feat: "files w path = Some features"
      and cnt: "counter lines features = Inr counts"
      and rw: "rewritePass pf counts lines = Inr (written, None)"
  shows "\<exists>w'. stratifyFile counter pf nucleosomeMapDir w path = (w', None)
              \<and> files w' (stratifiedNucMapFilePath path) = Some written"
proof -
  note ne = written_paths_differ [OF dir]
  have "((files w)(encompassmentCountsFilePath path \<mapsto> counts, stratifiedNucMapFilePath path \<mapsto> []))
          (originalNucMapFilePath nucleosomeMapDir) = Some lines"
    using ne orig by (simp add: fun_upd_def)
  then show ?thesis
    using dir feat cnt rw orig ne
    by (simp add: stratifyFile_def Let_def)
qed

text \<open>
  C1. When the rows of the counts file belong, one by one and in the same order, to the
  lines of the original nucleosome map, and the ID of a row matches no line but those of
  its own row, the rewrite pass ends without an exception and writes exactly the lines
  whose count is not zero, verbatim and in their original order; the lines with count zero
  are left out. So does \<^verbatim>\<open>stratifyNucleosomeMap\<close> for a stratifying-features file
  outside the map's directory on which the counter gives these rows: the stratified map
  then holds exactly those lines.
\<close>

theorem stratified_map_is_retained_records:
  assumes "list_all2 (rowOf pf) rows lines"
      and "\<forall>(row, line) \<in> set (zip rows lines). \<forall>(row', line') \<in> set (zip rows lines).
             idMatches pf row' line \<longrightarrow> row' = row"
  shows "rewritePass pf (header # rows) lines
           = Inr (map snd (filter (\<lambda>(row, line). retainedRow row) (zip rows lines)), None)
         \<and> (nucleosomeMapDir \<noteq> dirname path
              \<and> files w (originalNucMapFilePath nucleosomeMapDir) = Some lines
              \<and> files w path = Some features
              \<and> counter lines features = Inr (header # rows) \<longrightarrow>
            (\<exists>w'. stratifyNucleosomeMap counter pf w nucleosomeMapDir [path] = (w', None)
                  \<and> files w' (stratifiedNucMapFilePath path)
                    = Some (map snd (filter (\<lambda>(row, line). retainedRow row) (zip rows lines)))))"
proof -
  from assms(1) have len: "length rows = length lines"
    by (rule list_all2_lengthD)
  have own: "\<forall>(row, line) \<in> set (zip rows lines). rowOf pf row line"
    using assms(1) by (auto simp: list_all2_iff)
  have same: "\<forall>(row, line) \<in> set (zip rows lines). \<forall>(row', line') \<in> set (zip rows lines).
                idMatches pf row' line \<longrightarrow> retainedRow row' = retainedRow row"
    using assms(2) by fastforce
  have rw: "rewritePass pf (header # rows) lines
           = Inr (map snd (filter (\<lambda>(row, line). retainedRow row) (zip rows lines)), None)"
    by (rule rewritePass_aligned [OF len aligned_intro [OF own same]])
  show ?thesis
  proof (intro conjI impI)
    show "rewritePass pf (header # rows) lines
           = Inr (map snd (filter (\<lambda>(row, line). retainedRow row) (zip rows lines)), None)"
      by (rule rw)
  next
    assume h: "nucleosomeMapDir \<noteq> dirname path
              \<and> files w (originalNucMapFilePath nucleosomeMapDir) = Some lines
              \<and> files w path = Some features
              \<and> counter lines features = Inr (header # rows)"
    then have "\<exists>w'. stratifyFile counter pf nucleosomeMapDir w path = (w', None)
              \<and> files w' (stratifiedNucMapFilePath path)
                = Some (map snd (filter (\<lambda>(row, line). retainedRow row) (zip rows lines)))"
      by (intro stratifyFile_rewrites [where counts = "header # rows" and lines = lines
            and features = features] rw) blast+
    then show "\<exists>w'. stratifyNucleosomeMap counter pf w nucleosomeMapDir [path] = (w', None)
                  \<and> files w' (stratifiedNucMapFilePath path)
                    = Some (map snd (filter (\<lambda>(row, line). retainedRow row) (zip rows lines)))"
      by auto
  qed
qed

theorem stratified_map_is_retained_records_witness:
  "list_all2 (rowOf float_of_int_literal) [rowA, rowB, rowC] [nucA, nucB, nucC]
   \<and> rewritePass float_of_int_literal [countsHeader, rowA, rowB, rowC] [nucA, nucB, nucC]
       = Inr ([nucA, nucC], None)
   \<and> ''/data/maps/nuc'' \<noteq> dirname ''/data/maps/peaks/peaks.narrowPeak''
   \<and> files stratifyWorld (originalNucMapFilePath ''/data/maps/nuc'') = Some [nucA, nucB, nucC]
   \<and> files stratifyWorld ''/data/maps/peaks/peaks.narrowPeak'' = Some exampleFeatures
   \<and> exampleCounter [nucA, nucB, nucC] exampleFeatures = Inr [countsHeader, rowA, rowB, rowC]
   \<and> (\<exists>w'. stratifyNucleosomeMap exampleCounter float_of_int_literal stratifyWorld ''/data/maps/nuc''
              [''/data/maps/peaks/peaks.narrowPeak''] = (w', None)
            \<and> files w' (stratifiedNucMapFilePath ''/data/maps/peaks/peaks.narrowPeak'')
              = Some [nucA, nucC])"
proof -
  have own: "list_all2 (rowOf float_of_int_literal) [rowA, rowB, rowC] [nucA, nucB, nucC]"
    by code_simp
  have uniq: "\<forall>(row, line) \<in> set (zip [rowA, rowB, rowC] [nucA, nucB, nucC]).
              \<forall>(row', line') \<in> set (zip [rowA, rowB, rowC] [nucA, nucB, nucC]).
                idMatches float_of_int_literal row' line \<longrightarrow> row' = row"
    by code_simp
  have keep: "retainedRow rowA \<and> \<not> retainedRow rowB \<and> retainedRow rowC"
    by code_simp
  have d: "''/data/maps/nuc'' \<noteq> dirname ''/data/maps/peaks/peaks.narrowPeak''"
    by code_simp
  have o: "files stratifyWorld (originalNucMapFilePath ''/data/maps/nuc'') = Some [nucA, nucB, nucC]"
    by code_simp
  have f: "files stratifyWorld ''/data/maps/peaks/peaks.narrowPeak'' = Some exampleFeatures"
    by code_simp
  have c: "exampleCounter [nucA, nucB, nucC] exampleFeatures = Inr [countsHeader, rowA, rowB, rowC]"
    by (simp add: exampleCounter_def)
  note inst = stratified_map_is_retained_records [OF own uniq, of countsHeader "''/data/maps/nuc''"
      "''/data/maps/peaks/peaks.narrowPeak''" stratifyWorld exampleFeatures exampleCounter]
  from inst keep have 1: "rewritePass float_of_int_literal [countsHeader, rowA, rowB, rowC] [nucA, nucB, nucC]
       = Inr ([nucA, nucC], None)" by simp
  from inst keep d o f c have 2: "\<exists>w'. stratifyNucleosomeMap exampleCounter float_of_int_literal
              stratifyWorld ''/data/maps/nuc'' [''/data/maps/peaks/peaks.narrowPeak''] = (w', None)
            \<and> files w' (stratifiedNucMapFilePath ''/data/maps/peaks/peaks.narrowPeak'')
              = Some [nucA, nucC]" by simp
  from own 1 d o f c 2 show ?thesis by blast
qed

text \<open>
  C4. When the cursor is already at the end of the original map as the search for a
  retained ID begins, the first \<^verbatim>\<open>readline\<close> gives the empty string and
  \<^verbatim>\<open>matchesBedEntry\<close> fails to unpack it: the run ends with ValueError, not with the
  assertion that names the ID. So it is for the second of two retained IDs when the map
  holds only the line of the first. (When lines are still unread and none of them
  matches, the assertion is what ends the search: \<open>seekMatch_exhausted\<close>.)
\<close>

theorem match_not_found_is_ValueError_at_eof:
  "writeMatches pf (nucPosID # ids) [] = ([], Some ValueError)
   \<and> rewritePass float_of_int_literal [countsHeader, rowA, rowC] [nucA]
       = Inr ([nucA], Some ValueError)"
proof
  show "writeMatches pf (nucPosID # ids) [] = ([], Some ValueError)"
    by (rule writeMatches_at_eof)
  show "rewritePass float_of_int_literal [countsHeader, rowA, rowC] [nucA]
        = Inr ([nucA], Some ValueError)"
    by code_simp
qed


section \<open>Properties of the conversion scripts\<close>

text \<open>
  C8. The lung-cancer-specific designations are not among the PAH designations: the
  tuple of the latter holds \<^verbatim>\<open>MSM0.103MSM0.14\<close> as one element. A line
  designated \<^verbatim>\<open>MSM0.103\<close> is written without \<^verbatim>\<open>includeAllPAHs\<close> and
  skipped with it, whatever the two sequence helpers do.
\<close>

theorem all_PAHs_skips_lung_designation:
  "kucabRecord exampleIsPurine exampleReverseCompliment False (kucabExampleLine ''MSM0.103'' ''C'')
     = Inr (Some [''chr7'', ''1499'', ''1500'', ''ACC'', ''C>T'', ''+''])
   \<and> kucabRecord isPurine reverseCompliment True (kucabExampleLine ''MSM0.103'' ''C'') = Inr None
   \<and> ''MSM0.103'' \<in> set LungCancerSpecificDesignations \<and> ''MSM0.103'' \<notin> set PAHDesignations
   \<and> ''MSM0.14'' \<in> set LungCancerSpecificDesignations \<and> ''MSM0.14'' \<notin> set PAHDesignations"
proof (intro conjI)
  show "kucabRecord exampleIsPurine exampleReverseCompliment False (kucabExampleLine ''MSM0.103'' ''C'')
     = Inr (Some [''chr7'', ''1499'', ''1500'', ''ACC'', ''C>T'', ''+''])"
    by code_simp
  have cols: "py_split_sep (CHR 0x09) (py_strip (kucabExampleLine ''MSM0.103'' ''C''))
        = [''MSM0.103_s1'', ''sample'', ''1'', ''subs'', ''7'', ''1500'', ''C'', ''T'', ''x'', ''y'',
              ''z'', ''u'', ''v'', ''A'', ''C'', ''MSM0.103'']"
    by code_simp
  show "kucabRecord isPurine reverseCompliment True (kucabExampleLine ''MSM0.103'' ''C'') = Inr None"
    unfolding kucabRecord_def cols
    by (simp add: bind_err_def py_index_def relevantDesignations_def PAHDesignations_def)
qed (simp_all add: LungCancerSpecificDesignations_def PAHDesignations_def)

text \<open>
  C9. For every record that \<^verbatim>\<open>parseKucabCompendium\<close> writes, with \<open>f\<close> the
  columns of the input line: the strand is \<^verbatim>\<open>-\<close> exactly when
  \<^verbatim>\<open>isPurine\<close> holds of the reference base, and then the context and both sides of
  the mutation are what \<^verbatim>\<open>reverseCompliment\<close> returns; otherwise the strand is
  \<^verbatim>\<open>+\<close> and they are written as read. When the reference base is one of A, C, G,
  T, each flank is one character, and the helpers test for purines and reverse-complement
  on these texts, the central base of the written context and the from-base of the written
  mutation are pyrimidines.
\<close>

theorem kucab_strand_follows_reference_base:
  assumes rec: "kucabRecord isPurine reverseCompliment includeAllPAHs line = Inr (Some written)"
      and f: "f = py_split_sep (CHR 0x09) (py_strip line)"
  shows "length written = 6
     \<and> (written ! 5 = ''-'' \<longleftrightarrow> isPurine (f ! 6) = Inr True)
     \<and> (written ! 5 = ''+'' \<longleftrightarrow> isPurine (f ! 6) = Inr False)
     \<and> (isPurine (f ! 6) = Inr True \<longrightarrow>
          reverseCompliment (f ! 13 @ f ! 6 @ f ! 14) = Inr (written ! 3)
          \<and> (\<exists>a b. reverseCompliment (f ! 6) = Inr a \<and> reverseCompliment (f ! 7) = Inr b
                    \<and> written ! 4 = a @ ''>'' @ b))
     \<and> (isPurine (f ! 6) = Inr False \<longrightarrow>
          written ! 3 = f ! 13 @ f ! 6 @ f ! 14 \<and> written ! 4 = f ! 6 @ ''>'' @ f ! 7)
     \<and> ((\<exists>r. f ! 6 = [r] \<and> isBase r \<and> isPurine [r] = Inr (isPurineBase r)
              \<and> (isPurineBase r \<longrightarrow>
                    reverseCompliment [r] = Inr [complementBase r]
                    \<and> reverseCompliment (f ! 13 @ [r] @ f ! 14)
                        = Inr (rev (map complementBase (f ! 13 @ [r] @ f ! 14)))))
          \<and> length (f ! 13) = 1 \<and> length (f ! 14) = 1 \<longrightarrow>
          isPyrimidineBase (written ! 3 ! 1) \<and> isPyrimidineBase (written ! 4 ! 0))"
proof -
  from rec obtain purine where p: "isPurine (f ! 6) = Inr purine" and len: "16 \<le> length f"
    unfolding kucabRecord_def f [symmetric]
    by (auto simp: bind_err_def py_index_def Let_def split: if_splits option.splits sum.splits)
  show ?thesis
  proof (cases purine)
    case True
    with rec p len obtain a b ctx where rc: "reverseCompliment (f ! 6) = Inr a"
        "reverseCompliment (f ! 7) = Inr b" "reverseCompliment (f ! 13 @ f ! 6 @ f ! 14) = Inr ctx"
      and w: "written = [''chr'' @ f ! 4, py_str (the (py_int (f ! 5)) - 1), f ! 5, ctx, a @ ''>'' @ b, ''-'']"
      unfolding kucabRecord_def f [symmetric]
      by (auto simp: bind_err_def py_index_def Let_def split: if_splits option.splits sum.splits)
    show ?thesis
      using True p rc w
      by (auto simp: isBase_def isPurineBase_def isPyrimidineBase_def complementBase_def
               length_Suc_conv)
  next
    case False
    with rec p len have w: "written = [''chr'' @ f ! 4, py_str (the (py_int (f ! 5)) - 1), f ! 5,
        f ! 13 @ f ! 6 @ f ! 14, f ! 6 @ ''>'' @ f ! 7, ''+'']"
      unfolding kucabRecord_def f [symmetric]
      by (auto simp: bind_err_def py_index_def Let_def split: if_splits option.splits sum.splits)
    show ?thesis
      using False p w
      by (auto simp: isBase_def isPurineBase_def isPyrimidineBase_def length_Suc_conv)
  qed
qed



theorem kucab_strand_follows_reference_base_witness:
  "kucabRecord exampleIsPurine exampleReverseCompliment False (kucabExampleLine ''MSM0.26'' ''G'')
     = Inr (Some [''chr7'', ''1499'', ''1500'', ''GCT'', ''C>A'', ''-''])
   \<and> isBase (CHR ''G'') \<and> exampleIsPurine ''G'' = Inr (isPurineBase (CHR ''G''))
   \<and> exampleReverseCompliment ''G'' = Inr [complementBase (CHR ''G'')]
   \<and> exampleReverseCompliment (''A'' @ ''G'' @ ''C'') = Inr (rev (map complementBase (''A'' @ ''G'' @ ''C'')))
   \<and> [''chr7'', ''1499'', ''1500'', ''GCT'', ''C>A'', ''-''] ! 5 = ''-''
   \<and> isPyrimidineBase ([''chr7'', ''1499'', ''1500'', ''GCT'', ''C>A'', ''-''] ! 3 ! 1)
   \<and> isPyrimidineBase ([''chr7'', ''1499'', ''1500'', ''GCT'', ''C>A'', ''-''] ! 4 ! 0)"
proof -
  define f where "f = [''MSM0.103_s1'', ''sample'', ''1'', ''subs'', ''7'', ''1500'', ''G'', ''T'', ''x'', ''y'',
              ''z'', ''u'', ''v'', ''A'', ''C'', ''MSM0.26'']"
  have rec: "kucabRecord exampleIsPurine exampleReverseCompliment False (kucabExampleLine ''MSM0.26'' ''G'')
     = Inr (Some [''chr7'', ''1499'', ''1500'', ''GCT'', ''C>A'', ''-''])"
    by code_simp
  have cols: "f = py_split_sep (CHR 0x09) (py_strip (kucabExampleLine ''MSM0.26'' ''G''))"
    unfolding f_def by code_simp
  have h: "isBase (CHR ''G'')" "exampleIsPurine ''G'' = Inr (isPurineBase (CHR ''G''))"
    "exampleReverseCompliment ''G'' = Inr [complementBase (CHR ''G'')]"
    "exampleReverseCompliment (''A'' @ ''G'' @ ''C'') = Inr (rev (map complementBase (''A'' @ ''G'' @ ''C'')))"
    by (simp_all add: isBase_def isPurineBase_def exampleIsPurine_def exampleReverseCompliment_def)
  have f: "f ! 6 = ''G''" "f ! 13 = ''A''" "f ! 14 = ''C''" by (simp_all add: f_def)
  have dna: "(\<exists>r. f ! 6 = [r] \<and> isBase r \<and> exampleIsPurine [r] = Inr (isPurineBase r)
              \<and> (isPurineBase r \<longrightarrow>
                    exampleReverseCompliment [r] = Inr [complementBase r]
                    \<and> exampleReverseCompliment (f ! 13 @ [r] @ f ! 14)
                        = Inr (rev (map complementBase (f ! 13 @ [r] @ f ! 14)))))
          \<and> length (f ! 13) = 1 \<and> length (f ! 14) = 1"
    using h f by simp
  from kucab_strand_follows_reference_base [OF rec cols]
  have imp: "(\<exists>r. f ! 6 = [r] \<and> isBase r \<and> exampleIsPurine [r] = Inr (isPurineBase r)
              \<and> (isPurineBase r \<longrightarrow>
                    exampleReverseCompliment [r] = Inr [complementBase r]
                    \<and> exampleReverseCompliment (f ! 13 @ [r] @ f ! 14)
                        = Inr (rev (map complementBase (f ! 13 @ [r] @ f ! 14)))))
          \<and> length (f ! 13) = 1 \<and> length (f ! 14) = 1 \<longrightarrow>
          isPyrimidineBase ([''chr7'', ''1499'', ''1500'', ''GCT'', ''C>A'', ''-''] ! 3 ! 1)
          \<and> isPyrimidineBase ([''chr7'', ''1499'', ''1500'', ''GCT'', ''C>A'', ''-''] ! 4 ! 0)"
    by blast
  from imp dna
  have "isPyrimidineBase ([''chr7'', ''1499'', ''1500'', ''GCT'', ''C>A'', ''-''] ! 3 ! 1)
      \<and> isPyrimidineBase ([''chr7'', ''1499'', ''1500'', ''GCT'', ''C>A'', ''-''] ! 4 ! 0)"
    by (rule mp)
  moreover have "[''chr7'', ''1499'', ''1500'', ''GCT'', ''C>A'', ''-''] ! 5 = ''-''"
    by simp
  ultimately show ?thesis using rec h by blast
qed








lemma parseKucabCompendium_append:
  "parseKucabCompendium isP rc g srt w (pre @ rest) flag =
     (case parseKucabCompendium isP rc g srt w pre flag of
        (w', Some e) \<Rightarrow> (w', Some e)
      | (w', None) \<Rightarrow> parseKucabCompendium isP rc g srt w' rest flag)"
  by (induction pre arbitrary: w) (auto split: prod.splits option.splits)

lemma parseUVDESeq_append:
  "parseUVDESeq g srt w (pre @ rest) =
     (case parseUVDESeq g srt w pre of
        (w', Some e) \<Rightarrow> (w', Some e)
      | (w', None) \<Rightarrow> parseUVDESeq g srt w' rest)"
  by (induction pre arbitrary: w) (auto split: prod.splits option.splits)


lemma kucabFile_reads:
  assumes "kucabFile isP rc g srt flag w q = (w', r)" "OpenRead p \<in> set (trace w')"
  shows "OpenRead p \<in> set (trace w) \<or> (p = q \<and> py_endswith q ''final.txt'')"
  using assms
  by (auto simp: kucabFile_def Let_def split: if_splits prod.splits option.splits)

lemma uvdeFile_reads:
  assumes "uvdeFile g srt w q = (w', r)" "OpenRead p \<in> set (trace w')"
  shows "OpenRead p \<in> set (trace w) \<or> (p = q \<and> py_endswith (basename q) ''.bed'')"
  using assms
  by (auto simp: uvdeFile_def Let_def split: if_splits prod.splits option.splits)

lemma parseKucabCompendium_reads:
  assumes "OpenRead p \<in> set (trace (fst (parseKucabCompendium isP rc g srt w paths flag)))"
      and "\<not> py_endswith p ''final.txt''"
  shows "OpenRead p \<in> set (trace w)"
  using assms
proof (induction paths arbitrary: w)
  case Nil
  then show ?case by simp
next
  case (Cons q paths)
  obtain w' r where q: "kucabFile isP rc g srt flag w q = (w', r)"
    by (cases "kucabFile isP rc g srt flag w q")
  have "OpenRead p \<in> set (trace w')"
  proof (cases r)
    case None
    with Cons.prems(1) q have "OpenRead p \<in> set (trace (fst (parseKucabCompendium isP rc g srt w' paths flag)))"
      by simp
    from Cons.IH [OF this Cons.prems(2)] show ?thesis .
  next
    case (Some e)
    with Cons.prems(1) q show ?thesis by simp
  qed
  from kucabFile_reads [OF q this] Cons.prems(2) show ?case by blast
qed

lemma parseUVDESeq_reads:
  assumes "OpenRead p \<in> set (trace (fst (parseUVDESeq g srt w paths)))"
      and "\<not> py_endswith (basename p) ''.bed''"
  shows "OpenRead p \<in> set (trace w)"
  using assms
proof (induction paths arbitrary: w)
  case Nil
  then show ?case by simp
next
  case (Cons q paths)
  obtain w' r where q: "uvdeFile g srt w q = (w', r)"
    by (cases "uvdeFile g srt w q")
  have "OpenRead p \<in> set (trace w')"
  proof (cases r)
    case None
    with Cons.prems(1) q have "OpenRead p \<in> set (trace (fst (parseUVDESeq g srt w' paths)))"
      by simp
    from Cons.IH [OF this Cons.prems(2)] show ?thesis .
  next
    case (Some e)
    with Cons.prems(1) q show ?thesis by simp
  qed
  from uvdeFile_reads [OF q this] Cons.prems(2) show ?case by blast
qed

text \<open>
  C7. When the loop over the given paths reaches a path with the wrong suffix (the
  paths before it having been processed without an exception), the script raises
  ValueError and leaves the world as it was: the file is not opened and nothing is read
  from it, then or earlier in the run. \<^verbatim>\<open>parseKucabCompendium\<close> tests the path
  against \<^verbatim>\<open>final.txt\<close>, \<^verbatim>\<open>parseUVDESeq\<close> the file name against
  \<^verbatim>\<open>.bed\<close>. With no path before it, the world is the initial one.
\<close>

theorem wrong_suffix_raises_before_reading:
  "(parseKucabCompendium isP rc g srt w pre flag = (w', None) \<and> \<not> py_endswith p ''final.txt''
      \<longrightarrow> parseKucabCompendium isP rc g srt w (pre @ p # ps) flag = (w', Some ValueError)
          \<and> (OpenRead p \<notin> set (trace w) \<longrightarrow> OpenRead p \<notin> set (trace w')))
   \<and> (parseUVDESeq g srt w pre = (w'', None) \<and> \<not> py_endswith (basename p) ''.bed''
      \<longrightarrow> parseUVDESeq g srt w (pre @ p # ps) = (w'', Some ValueError)
          \<and> (OpenRead p \<notin> set (trace w) \<longrightarrow> OpenRead p \<notin> set (trace w'')))"
proof (intro conjI impI)
  assume h: "parseKucabCompendium isP rc g srt w pre flag = (w', None) \<and> \<not> py_endswith p ''final.txt''"
  then show "parseKucabCompendium isP rc g srt w (pre @ p # ps) flag = (w', Some ValueError)"
    by (simp add: parseKucabCompendium_append kucabFile_def)
  assume "OpenRead p \<notin> set (trace w)"
  with h parseKucabCompendium_reads [of p isP rc g srt w pre flag]
  show "OpenRead p \<notin> set (trace w')" by auto
next
  assume h: "parseUVDESeq g srt w pre = (w'', None) \<and> \<not> py_endswith (basename p) ''.bed''"
  then show "parseUVDESeq g srt w (pre @ p # ps) = (w'', Some ValueError)"
    by (simp add: parseUVDESeq_append uvdeFile_def)
  assume "OpenRead p \<notin> set (trace w)"
  with h parseUVDESeq_reads [of p g srt w pre]
  show "OpenRead p \<notin> set (trace w'')" by auto
qed

theorem wrong_suffix_raises_before_reading_witness:
  "parseKucabCompendium exampleIsPurine exampleReverseCompliment exampleParentDir keepOrder uvdeWorld [] True
     = (uvdeWorld, None)
   \<and> \<not> py_endswith ''/data/uvde/lesions.bed'' ''final.txt''
   \<and> parseKucabCompendium exampleIsPurine exampleReverseCompliment exampleParentDir keepOrder uvdeWorld
        ([] @ ''/data/uvde/lesions.bed'' # []) True = (uvdeWorld, Some ValueError)
   \<and> parseUVDESeq exampleParentDir keepOrder uvdeWorld [] = (uvdeWorld, None)
   \<and> \<not> py_endswith (basename ''/data/kucab/subs_final.txt'') ''.bed''
   \<and> parseUVDESeq exampleParentDir keepOrder uvdeWorld ([] @ ''/data/kucab/subs_final.txt'' # [])
       = (uvdeWorld, Some ValueError)
   \<and> OpenRead ''/data/uvde/lesions.bed'' \<notin> set (trace uvdeWorld)
   \<and> OpenRead ''/data/kucab/subs_final.txt'' \<notin> set (trace uvdeWorld)"
proof -
  have k: "\<not> py_endswith ''/data/uvde/lesions.bed'' ''final.txt''" by code_simp
  have u: "\<not> py_endswith (basename ''/data/kucab/subs_final.txt'') ''.bed''" by code_simp
  have k0: "parseKucabCompendium exampleIsPurine exampleReverseCompliment exampleParentDir keepOrder uvdeWorld [] True
     = (uvdeWorld, None)" by simp
  have u0: "parseUVDESeq exampleParentDir keepOrder uvdeWorld [] = (uvdeWorld, None)" by simp
  from wrong_suffix_raises_before_reading [of exampleIsPurine exampleReverseCompliment exampleParentDir
      keepOrder uvdeWorld "[]" True uvdeWorld "''/data/uvde/lesions.bed''" "[]" uvdeWorld]
    k k0 have 1: "parseKucabCompendium exampleIsPurine exampleReverseCompliment exampleParentDir keepOrder uvdeWorld
        ([] @ ''/data/uvde/lesions.bed'' # []) True = (uvdeWorld, Some ValueError)" by blast
  from wrong_suffix_raises_before_reading [of exampleIsPurine exampleReverseCompliment exampleParentDir
      keepOrder uvdeWorld "[]" True uvdeWorld "''/data/kucab/subs_final.txt''" "[]" uvdeWorld]
    u u0 have 2: "parseUVDESeq exampleParentDir keepOrder uvdeWorld ([] @ ''/data/kucab/subs_final.txt'' # [])
       = (uvdeWorld, Some ValueError)" by blast
  have n: "OpenRead ''/data/uvde/lesions.bed'' \<notin> set (trace uvdeWorld)"
    "OpenRead ''/data/kucab/subs_final.txt'' \<notin> set (trace uvdeWorld)"
    by (simp_all add: uvdeWorld_def)
  from k u k0 u0 1 2 n show ?thesis by blast
qed



section \<open>Properties of the loop over the stratifying features\<close>









section \<open>Properties of the analysis suite\<close>

lemma updateMutationFilePaths_stops:
  assumes "\<forall>q \<in> set pre. \<exists>c. getContext col q = Some c \<and> c \<noteq> 0 \<and> c \<noteq> - 1"
      and "getContext col p = None \<or> getContext col p = Some 0"
  shows "\<exists>updated. updateMutationFilePaths col n (pre @ p # ps)
           = (updated, map (\<lambda>q. ExpandContext [q] n) (filter (\<lambda>q. the (getContext col q) < n) pre),
              Some (AssertionError
                (if getContext col p = None
                 then ''Malformed file name.  Context is not clear for '' @ basename p
                 else ''Mixed context files cannot be normalized by sequence context.'')))"
  using assms
proof (induction pre)
  case Nil
  then show ?case by auto
next
  case (Cons q pre)
  then obtain c where c: "getContext col q = Some c" "c \<noteq> 0" "c \<noteq> - 1" by auto
  from Cons obtain updated where
    "updateMutationFilePaths col n (pre @ p # ps)
       = (updated, map (\<lambda>q. ExpandContext [q] n) (filter (\<lambda>q. the (getContext col q) < n) pre),
          Some (AssertionError
                (if getContext col p = None
                 then ''Malformed file name.  Context is not clear for '' @ basename p
                 else ''Mixed context files cannot be normalized by sequence context.'')))" by auto
  with c show ?case by (auto simp: Let_def)
qed

text \<open>
  C6 (as amended). \<^verbatim>\<open>runAnalysisSuite\<close> raises ValueError before any stage is
  called when neither radius is selected. \<^verbatim>\<open>parseArgs\<close> fails with its assertion,
  before \<^verbatim>\<open>runAnalysisSuite\<close> is called, when background generation is requested,
  no background is given and no sequence-context normalization (1 to 6) is selected. When a
  sequence-context normalization is requested and a mutation file has no clear context or
  the mixed context 0, \<^verbatim>\<open>runAnalysisSuite\<close> fails with an assertion before any
  counting, after the contexts of the files before that one have been expanded where they
  were too low.
\<close>

theorem configuration_errors:
  "(\<not> useNucGroupRadius \<and> \<not> useSingleNucRadius \<longrightarrow>
      runAnalysisSuite col paths names normalization dir useSingleNucRadius includeLinker useNucGroupRadius
        = ([], Some ValueError))
   \<and> (argc \<noteq> 2 \<and> mutation_file_paths a = Some mpaths \<and> (\<exists>m \<in> set mpaths. \<not> isdir col m)
        \<and> nucleosome_maps a = Some maps \<and> maps \<noteq> []
        \<and> context_normalization a \<notin> {Some 1, Some 2, Some 3, Some 4, Some 5, Some 6}
        \<and> background a = None \<and> generate_background_immediately a \<longrightarrow>
      parseArgs col argc a
        = ([], Some (AssertionError ''Background generation requested, but no background given.'')))
   \<and> ((useNucGroupRadius \<or> useSingleNucRadius) \<and> normalizationMethodNum normalization = Inr (Some n)
        \<and> (\<forall>q \<in> set pre. \<exists>c. getContext col q = Some c \<and> c \<noteq> 0 \<and> c \<noteq> - 1)
        \<and> (getContext col p = None \<or> getContext col p = Some 0) \<longrightarrow>
      runAnalysisSuite col (pre @ p # ps) names normalization dir useSingleNucRadius includeLinker
        useNucGroupRadius
      = (map (\<lambda>q. ExpandContext [q] n) (filter (\<lambda>q. the (getContext col q) < n) pre),
         Some (AssertionError
           (if getContext col p = None
            then ''Malformed file name.  Context is not clear for '' @ basename p
            else ''Mixed context files cannot be normalized by sequence context.''))))"
proof (intro conjI impI)
  assume "\<not> useNucGroupRadius \<and> \<not> useSingleNucRadius"
  then show "runAnalysisSuite col paths names normalization dir useSingleNucRadius includeLinker
               useNucGroupRadius = ([], Some ValueError)"
    by (simp add: runAnalysisSuite_def)
next
  assume h: "argc \<noteq> 2 \<and> mutation_file_paths a = Some mpaths \<and> (\<exists>m \<in> set mpaths. \<not> isdir col m)
        \<and> nucleosome_maps a = Some maps \<and> maps \<noteq> []
        \<and> context_normalization a \<notin> {Some 1, Some 2, Some 3, Some 4, Some 5, Some 6}
        \<and> background a = None \<and> generate_background_immediately a"
  then have "concat (map (\<lambda>mutationFilePath.
                             if isdir col mutationFilePath
                             then map (abspath col) (getFilesInDirectory col mutationFilePath)
                             else [abspath col mutationFilePath]) mpaths) \<noteq> []"
    by auto
  with h show "parseArgs col argc a
        = ([], Some (AssertionError ''Background generation requested, but no background given.''))"
    by (auto simp: parseArgs_def Let_def)
next
  assume h: "(useNucGroupRadius \<or> useSingleNucRadius) \<and> normalizationMethodNum normalization = Inr (Some n)
        \<and> (\<forall>q \<in> set pre. \<exists>c. getContext col q = Some c \<and> c \<noteq> 0 \<and> c \<noteq> - 1)
        \<and> (getContext col p = None \<or> getContext col p = Some 0)"
  then have "\<exists>updated. updateMutationFilePaths col n (pre @ p # ps)
           = (updated, map (\<lambda>q. ExpandContext [q] n) (filter (\<lambda>q. the (getContext col q) < n) pre),
              Some (AssertionError
                (if getContext col p = None
                 then ''Malformed file name.  Context is not clear for '' @ basename p
                 else ''Mixed context files cannot be normalized by sequence context.'')))"
    by (intro updateMutationFilePaths_stops) blast+
  then obtain updated where "updateMutationFilePaths col n (pre @ p # ps)
           = (updated, map (\<lambda>q. ExpandContext [q] n) (filter (\<lambda>q. the (getContext col q) < n) pre),
              Some (AssertionError
                (if getContext col p = None
                 then ''Malformed file name.  Context is not clear for '' @ basename p
                 else ''Mixed context files cannot be normalized by sequence context.'')))" by blast
  with h show "runAnalysisSuite col (pre @ p # ps) names normalization dir useSingleNucRadius includeLinker
        useNucGroupRadius
      = (map (\<lambda>q. ExpandContext [q] n) (filter (\<lambda>q. the (getContext col q) < n) pre),
         Some (AssertionError
           (if getContext col p = None
            then ''Malformed file name.  Context is not clear for '' @ basename p
            else ''Mixed context files cannot be normalized by sequence context.'')))"
    by (auto simp: runAnalysisSuite_def)
qed

theorem configuration_errors_witness:
  "\<not> False \<and> \<not> False
   \<and> runAnalysisSuite exampleCollaborators [''a_singlenuc_context_mutations.bed''] [''nuc'']
        ''No Normalization'' None False False False = ([], Some ValueError)
   \<and> (5::nat) \<noteq> 2
   \<and> mutation_file_paths (exampleArgs None) = Some [''a_singlenuc_context_mutations.bed'']
   \<and> (\<exists>m \<in> set [''a_singlenuc_context_mutations.bed'']. \<not> isdir exampleCollaborators m)
   \<and> nucleosome_maps (exampleArgs None) = Some [''/data/maps/nuc/nuc.bed'']
   \<and> context_normalization (exampleArgs None) \<notin> {Some 1, Some 2, Some 3, Some 4, Some 5, Some 6}
   \<and> background (exampleArgs None) = None \<and> generate_background_immediately (exampleArgs None)
   \<and> parseArgs exampleCollaborators 5 (exampleArgs None)
       = ([], Some (AssertionError ''Background generation requested, but no background given.''))
   \<and> normalizationMethodNum ''Trinuc/Quadrunuc'' = Inr (Some 3)
   \<and> getContext exampleCollaborators ''a_singlenuc_context_mutations.bed'' = Some 1
   \<and> getContext exampleCollaborators ''b_mixed_context_mutations.bed'' = Some 0
   \<and> runAnalysisSuite exampleCollaborators
        ([''a_singlenuc_context_mutations.bed''] @ ''b_mixed_context_mutations.bed'' # [])
        [''nuc''] ''Trinuc/Quadrunuc'' None True False False
      = ([ExpandContext [''a_singlenuc_context_mutations.bed''] 3],
         Some (AssertionError ''Mixed context files cannot be normalized by sequence context.''))"
proof -
  have a: "mutation_file_paths (exampleArgs None) = Some [''a_singlenuc_context_mutations.bed'']"
    "nucleosome_maps (exampleArgs None) = Some [''/data/maps/nuc/nuc.bed'']"
    "context_normalization (exampleArgs None) \<notin> {Some 1, Some 2, Some 3, Some 4, Some 5, Some 6}"
    "background (exampleArgs None) = None" "generate_background_immediately (exampleArgs None)"
    by (simp_all add: exampleArgs_def)
  have d: "\<exists>m \<in> set [''a_singlenuc_context_mutations.bed'']. \<not> isdir exampleCollaborators m"
    by (simp add: exampleCollaborators_def)
  have n: "normalizationMethodNum ''Trinuc/Quadrunuc'' = Inr (Some 3)"
    by (simp add: normalizationMethodNum_def)
  have c: "\<forall>q \<in> set [''a_singlenuc_context_mutations.bed''].
         \<exists>c. getContext exampleCollaborators q = Some c \<and> c \<noteq> 0 \<and> c \<noteq> - 1"
    "getContext exampleCollaborators ''b_mixed_context_mutations.bed'' = Some 0"
    "the (getContext exampleCollaborators ''a_singlenuc_context_mutations.bed'') < 3"
    "getContext exampleCollaborators ''a_singlenuc_context_mutations.bed'' = Some 1"
    by (simp_all add: exampleCollaborators_def)
  have r: "\<not> False \<and> \<not> False" by simp
  from configuration_errors [where useNucGroupRadius = False and useSingleNucRadius = False
      and col = exampleCollaborators and paths = "[''a_singlenuc_context_mutations.bed'']"
      and names = "[''nuc'']" and normalization = "''No Normalization''" and dir = None
      and includeLinker = False] r
  have 1: "runAnalysisSuite exampleCollaborators [''a_singlenuc_context_mutations.bed''] [''nuc'']
        ''No Normalization'' None False False False = ([], Some ValueError)"
    by blast
  from configuration_errors [where col = exampleCollaborators and argc = 5 and a = "exampleArgs None"
      and mpaths = "[''a_singlenuc_context_mutations.bed'']" and maps = "[''/data/maps/nuc/nuc.bed'']"] a d
  have 2: "parseArgs exampleCollaborators 5 (exampleArgs None)
       = ([], Some (AssertionError ''Background generation requested, but no background given.''))"
    by simp
  from configuration_errors [where useNucGroupRadius = False and useSingleNucRadius = True
      and col = exampleCollaborators and names = "[''nuc'']" and normalization = "''Trinuc/Quadrunuc''"
      and dir = None and includeLinker = False and n = 3
      and pre = "[''a_singlenuc_context_mutations.bed'']" and p = "''b_mixed_context_mutations.bed''"
      and ps = "[]"] n c
  have 3: "runAnalysisSuite exampleCollaborators
                ([''a_singlenuc_context_mutations.bed''] @ ''b_mixed_context_mutations.bed'' # [])
                [''nuc''] ''Trinuc/Quadrunuc'' None True False False
           = ([ExpandContext [''a_singlenuc_context_mutations.bed''] 3],
              Some (AssertionError ''Mixed context files cannot be normalized by sequence context.''))"
    by simp
  from 1 2 3 a d n c show ?thesis by simp
qed

text \<open>
  C6 (as stated) fails twice. With background generation requested, no background given
  and context normalization 1 selected, \<^verbatim>\<open>parseArgs\<close> raises nothing and runs the
  whole suite. With a single-nucleotide file before a mixed-context file and trinucleotide
  normalization, the first file's context is expanded before the assertion on the second
  fails.
\<close>

theorem configuration_errors_not_always_first:
  "parseArgs exampleCollaborators 5 (exampleArgs (Some 1))
     = ([CountNucleosomePositionMutations [''a_singlenuc_context_mutations.bed''] [''nuc''] True False 0,
         GenerateMutationBackground [''a_singlenuc_context_mutations.bed''] 1,
         GenerateNucleosomeMutationBackground [] [''nuc''] True False 0,
         NormalizeCounts []], None)
   \<and> runAnalysisSuite exampleCollaborators
        [''a_singlenuc_context_mutations.bed'', ''b_mixed_context_mutations.bed''] [''nuc'']
        ''Trinuc/Quadrunuc'' None True False False
     = ([ExpandContext [''a_singlenuc_context_mutations.bed''] 3],
        Some (AssertionError ''Mixed context files cannot be normalized by sequence context.''))"
  by code_simp




section \<open>Properties of the overlap counter\<close>

lemma beyond_tail:
  assumes "sortedIntervals (iv # ivs)"
      and "\<not> iv_chromosome iv < c" "\<not> (iv_chromosome iv = c \<and> iv_start iv \<le> p)"
  shows "\<forall>b \<in> set (iv # ivs). c \<le> iv_chromosome b \<and> \<not> (iv_chromosome b = c \<and> iv_start b \<le> p)"
  using assms by (fastforce simp: sortedIntervals_def key_le_def)

lemma sortedIntervals_tl: "sortedIntervals (iv # ivs) \<Longrightarrow> sortedIntervals ivs"
  by (simp add: sortedIntervals_def)

lemma admit_sorted:
  assumes "sortedIntervals cur" "admit c p cur act = (cur', act')"
  shows "\<exists>taken. cur = taken @ cur'
           \<and> act' = rev (filter (\<lambda>iv. iv_chromosome iv = c) taken) @ act
           \<and> (\<forall>iv \<in> set taken. iv_chromosome iv < c \<or> (iv_chromosome iv = c \<and> iv_start iv \<le> p))
           \<and> (\<forall>b \<in> set cur'. c \<le> iv_chromosome b \<and> \<not> (iv_chromosome b = c \<and> iv_start b \<le> p))
           \<and> sortedIntervals cur'"
  using assms
proof (induction cur arbitrary: act)
  case Nil
  then show ?case by simp
next
  case (Cons iv ivs)
  note srt = sortedIntervals_tl [OF Cons.prems(1)]
  consider (skip) "iv_chromosome iv < c"
    | (take) "\<not> iv_chromosome iv < c" "iv_chromosome iv = c \<and> iv_start iv \<le> p"
    | (stop) "\<not> iv_chromosome iv < c" "\<not> (iv_chromosome iv = c \<and> iv_start iv \<le> p)"
    by blast
  then show ?case
  proof cases
    case skip
    with Cons.prems have "admit c p ivs act = (cur', act')" by simp
    from Cons.IH [OF srt this] obtain taken where t: "ivs = taken @ cur'"
      "act' = rev (filter (\<lambda>iv. iv_chromosome iv = c) taken) @ act"
      "\<forall>iv \<in> set taken. iv_chromosome iv < c \<or> (iv_chromosome iv = c \<and> iv_start iv \<le> p)"
      "\<forall>b \<in> set cur'. c \<le> iv_chromosome b \<and> \<not> (iv_chromosome b = c \<and> iv_start b \<le> p)"
      "sortedIntervals cur'" by blast
    show ?thesis
      by (rule exI [of _ "iv # taken"]) (use skip t in auto)
  next
    case take
    with Cons.prems have "admit c p ivs (iv # act) = (cur', act')" by simp
    from Cons.IH [OF srt this] obtain taken where t: "ivs = taken @ cur'"
      "act' = rev (filter (\<lambda>iv. iv_chromosome iv = c) taken) @ iv # act"
      "\<forall>iv \<in> set taken. iv_chromosome iv < c \<or> (iv_chromosome iv = c \<and> iv_start iv \<le> p)"
      "\<forall>b \<in> set cur'. c \<le> iv_chromosome b \<and> \<not> (iv_chromosome b = c \<and> iv_start b \<le> p)"
      "sortedIntervals cur'" by blast
    show ?thesis
      by (rule exI [of _ "iv # taken"]) (use take t in auto)
  next
    case stop
    with Cons.prems have "cur' = iv # ivs" "act' = act" by simp_all
    with beyond_tail [OF Cons.prems(1) stop] Cons.prems(1) show ?thesis
      by (intro exI [of _ "[]"]) simp
  qed
qed

lemma sortedRecords_later:
  assumes "sortedRecords (r # rs)" "r' \<in> set rs"
  shows "chromosome r \<le> chromosome r'"
    and "chromosome r' = chromosome r \<Longrightarrow> position r \<le> position r'"
  using assms by (auto simp: sortedRecords_def key_le_def)

lemma sweep_counts:
  assumes "sortedIntervals cur" "sortedRecords rs"
    and "\<forall>r \<in> set rs. length (filter (\<lambda>iv. contains iv r) act)
                        = length (filter (\<lambda>iv. contains iv r) seen)"
    and "\<forall>iv \<in> set act. \<forall>r \<in> set rs. iv_chromosome iv = chromosome r \<longrightarrow> iv_start iv \<le> position r"
    and "\<forall>iv \<in> set act. \<forall>r \<in> set rs. iv_chromosome iv \<le> chromosome r"
  shows "sweep cur act rs = map (\<lambda>r. (r, length (filter (\<lambda>iv. contains iv r) (seen @ cur)))) rs"
  using assms
proof (induction rs arbitrary: cur act seen)
  case Nil
  then show ?case by simp
next
  case (Cons r rs)
  define c where "c = chromosome r"
  define p where "p = position r"
  obtain cur' act1 where adm: "admit c p cur act = (cur', act1)" by (cases "admit c p cur act")
  from admit_sorted [OF Cons.prems(1) adm] obtain taken where t: "cur = taken @ cur'"
      "act1 = rev (filter (\<lambda>iv. iv_chromosome iv = c) taken) @ act"
      "\<forall>iv \<in> set taken. iv_chromosome iv < c \<or> (iv_chromosome iv = c \<and> iv_start iv \<le> p)"
      "\<forall>b \<in> set cur'. c \<le> iv_chromosome b \<and> \<not> (iv_chromosome b = c \<and> iv_start b \<le> p)"
      "sortedIntervals cur'" by blast
  define act2 where "act2 = evict c p act1"
  have srs: "sortedRecords rs" using Cons.prems(2) by (simp add: sortedRecords_def)
  note later = sortedRecords_later [OF Cons.prems(2), folded c_def p_def]
  \<comment> \<open>every interval of the active set after admission lies on a chromosome up to \<open>c\<close>, and
      starts at or before \<open>p\<close> when it lies on \<open>c\<close>\<close>
  have act1_chr: "iv_chromosome iv \<le> c" if "iv \<in> set act1" for iv
    using that t(2) Cons.prems(5) by (auto simp: c_def)
  have act1_start: "iv_start iv \<le> p" if "iv \<in> set act1" "iv_chromosome iv = c" for iv
    using that t(2,3) Cons.prems(4) by (auto simp: c_def p_def)
  \<comment> \<open>the count of the record itself\<close>
  have evict_contains: "act2 = filter (\<lambda>iv. contains iv r) act1"
    unfolding act2_def evict_def
    by (rule filter_cong) (auto simp: contains_def c_def [symmetric] p_def [symmetric] dest: act1_start)
  have "filter (\<lambda>iv. contains iv r) (filter (\<lambda>iv. iv_chromosome iv = c) taken)
        = filter (\<lambda>iv. contains iv r) taken"
    by (auto simp: contains_def c_def intro: filter_cong)
  then have taken_r: "length (filter (\<lambda>iv. contains iv r) (rev (filter (\<lambda>iv. iv_chromosome iv = c) taken)))
                 = length (filter (\<lambda>iv. contains iv r) taken)"
    by (simp add: rev_filter [symmetric])
  have cur'_r: "filter (\<lambda>iv. contains iv r) cur' = []"
    using t(4) by (auto simp: filter_empty_conv contains_def c_def [symmetric] p_def [symmetric])
  have count: "length act2 = length (filter (\<lambda>iv. contains iv r) (seen @ cur))"
    using Cons.prems(3) by (simp add: evict_contains t(1,2) taken_r cur'_r)
  \<comment> \<open>the invariant for the records that follow\<close>
  have keep: "filter (\<lambda>iv. contains iv r') act2 = filter (\<lambda>iv. contains iv r') act1"
    if "r' \<in> set rs" for r'
  proof -
    have "contains iv r' \<Longrightarrow> iv \<in> set act1 \<Longrightarrow> iv_chromosome iv = c \<and> p \<le> iv_end iv" for iv
      using later [OF that] act1_chr [of iv] by (auto simp: contains_def)
    then show ?thesis
      unfolding act2_def evict_def by (auto intro: filter_cong)
  qed
  have taken_later: "length (filter (\<lambda>iv. contains iv r') (rev (filter (\<lambda>iv. iv_chromosome iv = c) taken)))
                     = length (filter (\<lambda>iv. contains iv r') taken)" if "r' \<in> set rs" for r'
  proof -
    have "contains iv r' \<Longrightarrow> iv \<in> set taken \<Longrightarrow> iv_chromosome iv = c" for iv
      using later(1) [OF that] t(3) by (auto simp: contains_def)
    then have "filter (\<lambda>iv. contains iv r') (filter (\<lambda>iv. iv_chromosome iv = c) taken)
               = filter (\<lambda>iv. contains iv r') taken"
      by (auto intro: filter_cong)
    then show ?thesis by (simp add: rev_filter [symmetric])
  qed
  have I1: "\<forall>r' \<in> set rs. length (filter (\<lambda>iv. contains iv r') act2)
                          = length (filter (\<lambda>iv. contains iv r') (seen @ taken))"
    using Cons.prems(3) by (simp add: keep t(2) taken_later)
  have act2_sub: "iv \<in> set act2 \<Longrightarrow> iv \<in> set act1 \<and> iv_chromosome iv = c" for iv
    by (auto simp: act2_def evict_def)
  have I2: "\<forall>iv \<in> set act2. \<forall>r' \<in> set rs. iv_chromosome iv = chromosome r' \<longrightarrow> iv_start iv \<le> position r'"
  proof (intro ballI impI)
    fix iv r' assume a: "iv \<in> set act2" "r' \<in> set rs" "iv_chromosome iv = chromosome r'"
    from act2_sub [OF a(1)] have "iv_start iv \<le> p" "chromosome r' = c"
      using act1_start a(3) by auto
    with later(2) [OF a(2)] show "iv_start iv \<le> position r'" by simp
  qed
  have I3: "\<forall>iv \<in> set act2. \<forall>r' \<in> set rs. iv_chromosome iv \<le> chromosome r'"
    using act2_sub later(1) by auto
  from Cons.IH [OF t(5) srs I1 I2 I3]
  have "sweep cur' act2 rs = map (\<lambda>r. (r, length (filter (\<lambda>iv. contains iv r) (seen @ cur)))) rs"
    by (simp add: t(1))
  with adm count show ?case
    by (simp add: c_def p_def act2_def)
qed

text \<open>
  C2. For encompassing intervals sorted by chromosome and start, and encompassed records
  sorted by chromosome and position, the count the sweep produces for each record is the
  brute-force number of intervals of the same chromosome with start \<open>\<le>\<close> position
  \<open>\<le>\<close> end. The bounds are inclusive and the chromosomes must be equal: for one
  interval and one record the count is 1 exactly when the chromosomes agree and the
  position lies from start to end, both included, and 0 otherwise, whatever the numbers.
\<close>

theorem sweep_count_is_brute_force:
  assumes "sortedIntervals encompassing" "sortedRecords encompassed"
  shows "countOverlaps encompassing encompassed
           = map (\<lambda>r. (r, bruteForceCount encompassing r)) encompassed
         \<and> countOverlaps [iv] [r]
           = [(r, if iv_chromosome iv = chromosome r \<and> iv_start iv \<le> position r
                     \<and> position r \<le> iv_end iv then 1 else 0)]"
proof
  show "countOverlaps encompassing encompassed
           = map (\<lambda>r. (r, bruteForceCount encompassing r)) encompassed"
    using sweep_counts [OF assms, of "[]" "[]"]
    by (simp add: countOverlaps_def bruteForceCount_def)
  show "countOverlaps [iv] [r]
           = [(r, if iv_chromosome iv = chromosome r \<and> iv_start iv \<le> position r
                     \<and> position r \<le> iv_end iv then 1 else 0)]"
    by (auto simp: countOverlaps_def evict_def)
qed

theorem sweep_count_is_brute_force_witness:
  "sortedIntervals exampleIntervals \<and> sortedRecords examplePoints
   \<and> countOverlaps exampleIntervals examplePoints
     = [(point ''chr1'' 99 Plus, 0), (point ''chr1'' 100 Plus, 1), (point ''chr1'' 100 Minus, 1),
        (point ''chr1'' 150 Plus, 2), (point ''chr1'' 300 Plus, 1), (point ''chr1'' 301 Plus, 0),
        (point ''chr2'' 150 Plus, 0)]"
proof -
  have si: "sortedIntervals exampleIntervals" by code_simp
  have sr: "sortedRecords examplePoints" by code_simp
  have bf: "map (\<lambda>r. (r, bruteForceCount exampleIntervals r)) examplePoints
     = [(point ''chr1'' 99 Plus, 0), (point ''chr1'' 100 Plus, 1), (point ''chr1'' 100 Minus, 1),
        (point ''chr1'' 150 Plus, 2), (point ''chr1'' 300 Plus, 1), (point ''chr1'' 301 Plus, 0),
        (point ''chr2'' 150 Plus, 0)]" by code_simp
  from sweep_count_is_brute_force [OF si sr] bf si sr show ?thesis by simp
qed




end
